theory Spec2Isabelle
  imports Complex_Main "HOL-Library.Word" "HOL-Library.Sublist"
begin

section \<open>The optimisation core of the image optimiser\<close>

text \<open>
  The development embeds \<^verbatim>\<open>resizer_module/utils.py\<close>, \<^verbatim>\<open>resizer_module/analysis.py\<close> and
  \<^verbatim>\<open>resizer_module/optimizer.py\<close>. Python strings are \<open>string\<close>, Python integers are
  \<open>int\<close>, byte positions and pixel counts are \<open>nat\<close>, 8-bit channel values are \<open>8 word\<close>.
  The imaging library (PIL) is not part of the repository: its operations are fields of a
  record that every function of the core takes as its first argument, so each theorem
  holds for every behaviour of the library.
\<close>

subsection \<open>Strings\<close>

text \<open>
  \<open>str.lower()\<close> and \<open>str.upper()\<close> on the letters A to Z. A character outside ASCII is
  left alone. Python maps a few code points outside ASCII to text that contains an ASCII
  letter: lower-casing gives \<open>k\<close>, or \<open>i\<close> followed by a combining mark; upper-casing
  gives \<open>S\<close>, \<open>I\<close>, \<open>F\<close>, \<open>L\<close>, \<open>T\<close>, or a letter next to a mark outside ASCII. None of
  these can complete one of the words the code compares the result with (\<open>ui\<close>, \<open>gui\<close>,
  \<open>colormap\<close>, \<open>font\<close>; \<open>PNG\<close>, \<open>JPG\<close>, \<open>JPEG\<close>, \<open>WEBP\<close>), so every comparison below
  has the value it has in Python.
\<close>

definition lower_char :: "char \<Rightarrow> char" where
  "lower_char c =
     (case map_of (zip ''ABCDEFGHIJKLMNOPQRSTUVWXYZ'' ''abcdefghijklmnopqrstuvwxyz'') c of
        Some d \<Rightarrow> d
      | None \<Rightarrow> c)"

definition upper_char :: "char \<Rightarrow> char" where
  "upper_char c =
     (case map_of (zip ''abcdefghijklmnopqrstuvwxyz'' ''ABCDEFGHIJKLMNOPQRSTUVWXYZ'') c of
        Some d \<Rightarrow> d
      | None \<Rightarrow> c)"

definition lower :: "string \<Rightarrow> string" where
  "lower s = map lower_char s"

definition upper :: "string \<Rightarrow> string" where
  "upper s = map upper_char s"

text \<open>\<open>s.replace(a, b)\<close> for one-character \<open>a\<close> and \<open>b\<close>.\<close>

definition replace_char :: "char \<Rightarrow> char \<Rightarrow> string \<Rightarrow> string" where
  "replace_char a b s = map (\<lambda>c. if c = a then b else c) s"

text \<open>
  \<open>s.split(d)\<close> for a one-character separator: every occurrence of \<open>d\<close> ends a segment,
  so neighbouring separators give empty segments and the empty string gives one empty
  segment.
\<close>

fun split_str :: "char \<Rightarrow> string \<Rightarrow> string list" where
  "split_str d [] = [[]]"
| "split_str d (c # cs) =
     (if c = d then [] # split_str d cs
      else (case split_str d cs of
              [] \<Rightarrow> [[c]]
            | seg # segs \<Rightarrow> (c # seg) # segs))"

text \<open>\<open>str(n)\<close> for a Python integer: decimal digits, a leading minus sign when negative.\<close>

fun str_nat :: "nat \<Rightarrow> string" where
  "str_nat n =
     (if n < 10 then [''0123456789'' ! n]
      else str_nat (n div 10) @ [''0123456789'' ! (n mod 10)])"

declare str_nat.simps [simp del]

definition str_int :: "int \<Rightarrow> string" where
  "str_int i = (if i < 0 then ''-'' @ str_nat (nat (- i)) else str_nat (nat i))"

subsection \<open>utils.py\<close>

definition ui_keywords :: "string set" where
  "ui_keywords = {''ui'', ''gui'', ''colormap'', ''font''}"

definition is_ui_texture :: "string \<Rightarrow> bool" where
  "is_ui_texture path =
     (let p = replace_char (CHR 0x5C) (CHR ''/'') (lower path);
          parts = split_str (CHR ''/'') p
      in list_ex (\<lambda>k. k \<in> ui_keywords) parts)"

text \<open>
  The reading of the specification: the lower-cased path is cut at every \<open>/\<close> and at
  every backslash, with no replacement step.
\<close>

fun split_any :: "char set \<Rightarrow> string \<Rightarrow> string list" where
  "split_any ds [] = [[]]"
| "split_any ds (c # cs) =
     (if c \<in> ds then [] # split_any ds cs
      else (case split_any ds cs of
              [] \<Rightarrow> [[c]]
            | seg # segs \<Rightarrow> (c # seg) # segs))"

definition path_segments :: "string \<Rightarrow> string list" where
  "path_segments path = split_any {CHR ''/'', CHR 0x5C} (lower path)"

subsection \<open>analysis.py: the classification record\<close>

record ImageAnalysis =
  mode :: string
  alpha_type :: string
  is_ui :: bool
  has_transparency :: bool
  suggested_algorithm :: string

subsection \<open>optimizer.py: the candidate generator\<close>

type_synonym candidate = "string \<times> int option"

definition generate_candidates :: "ImageAnalysis \<Rightarrow> bool \<Rightarrow> candidate list" where
  "generate_candidates analysis ignore_transparency =
     (let effective_alpha = (if ignore_transparency then ''none'' else alpha_type analysis)
      in if effective_alpha = ''none'' then
           [(''RGB'', None)] @
           (if \<not> is_ui analysis then [(''P'', Some 256), (''P'', Some 128)] else [])
         else if effective_alpha = ''binary'' then
           [(''RGBA'', None)] @
           (if \<not> is_ui analysis then [(''P'', Some 256), (''P'', Some 128)] else [])
         else if effective_alpha = ''partial'' then
           [(''RGBA'', None)]
         else [])"

subsection \<open>The imaging library\<close>

text \<open>
  What the core asks of the imaging library. \<open>None\<close> from \<open>img_convert\<close>,
  \<open>img_getchannel\<close>, \<open>img_quantize\<close> or \<open>img_save\<close> stands for an exception raised
  by the call. \<open>img_getcolors im n\<close> is \<open>im.getcolors(n)\<close>: the list of (count, pixel
  value) pairs, or Python's \<open>None\<close> when the image has more than \<open>n\<close> distinct values.
  \<open>img_quantize im c m d\<close> is \<open>im.quantize(colors=c, method=m, dither=d)\<close>.
  \<open>img_save im kw\<close> is \<open>im.save(buffer, **kw)\<close> on a fresh \<open>BytesIO\<close> followed by
  \<open>buffer.tell()\<close>: the bytes written and the position reached. No call changes the
  image it is given.
\<close>

datatype pyval = PStr string | PBool bool | PInt int

type_synonym kwargs = "(string \<times> pyval) list"

type_synonym bytes = "8 word list"

record 'img imaging =
  img_mode :: "'img \<Rightarrow> string"
  img_convert :: "'img \<Rightarrow> string \<Rightarrow> 'img option"
  img_getchannel :: "'img \<Rightarrow> string \<Rightarrow> 8 word list option"
  img_getcolors :: "'img \<Rightarrow> nat \<Rightarrow> (nat \<times> nat) list option"
  img_quantize :: "'img \<Rightarrow> int \<Rightarrow> int \<Rightarrow> int \<Rightarrow> 'img option"
  img_save :: "'img \<Rightarrow> kwargs \<Rightarrow> (bytes \<times> nat) option"

text \<open>
  A single channel is the list of its pixel values. \<open>getextrema\<close> gives the smallest
  and the largest value, and Python's \<open>None\<close> for a channel with no pixel; \<open>getcolors\<close>
  on a channel lists each value present with its count, in increasing order of value.
\<close>

definition getextrema :: "8 word list \<Rightarrow> (8 word \<times> 8 word) option" where
  "getextrema chan =
     (case chan of
        [] \<Rightarrow> None
      | a # as \<Rightarrow> Some (fold min as a, fold max as a))"

definition getcolors :: "8 word list \<Rightarrow> nat \<Rightarrow> (nat \<times> 8 word) list option" where
  "getcolors chan maxcolors =
     (let out = map (\<lambda>v. (count_list chan v, v)) (sort (remdups chan))
      in if length out > maxcolors then None else Some out)"

subsection \<open>analysis.py: analyze_image\<close>

datatype error = ImagingError | TypeError

text \<open>
  Lines 27 to 32: the alpha channel of the image, converted to RGBA first when its mode
  is another one. An exception of the library leaves \<open>analyze_image\<close>.
\<close>

definition alpha_channel :: "'img imaging \<Rightarrow> 'img \<Rightarrow> error + 8 word list" where
  "alpha_channel L img =
     (case (if img_mode L img \<noteq> ''RGBA'' then img_convert L img ''RGBA'' else Some img) of
        None \<Rightarrow> Inl ImagingError
      | Some temp_img \<Rightarrow>
          (case img_getchannel L temp_img ''A'' of
             None \<Rightarrow> Inl ImagingError
           | Some alpha \<Rightarrow> Inr alpha))"

text \<open>
  Lines 34 to 52: the alpha type and the transparency flag. Unpacking the extrema of a
  channel with no pixel raises \<open>TypeError\<close>. \<open>vals and len(vals) <= 2\<close> holds for a list
  that is not \<open>None\<close>, not empty and of at most two entries.
\<close>

definition classify_alpha :: "8 word list \<Rightarrow> error + (string \<times> bool)" where
  "classify_alpha alpha =
     (case getextrema alpha of
        None \<Rightarrow> Inl TypeError
      | Some (min_a, max_a) \<Rightarrow>
          if min_a < 255 then
            (case getcolors alpha 257 of
               None \<Rightarrow> Inr (''partial'', True)
             | Some vals \<Rightarrow>
                 if vals \<noteq> [] \<and> length vals \<le> 2 then
                   (if list_all (\<lambda>v. snd v \<in> {0, 255}) vals
                    then Inr (''binary'', True)
                    else Inr (''partial'', True))
                 else Inr (''partial'', True))
          else Inr (''none'', False))"

text \<open>Lines 56 to 65: the resampling kernel suggested for a resize.\<close>

definition suggest_algorithm :: "'img imaging \<Rightarrow> 'img \<Rightarrow> bool \<Rightarrow> string \<Rightarrow> string" where
  "suggest_algorithm L img ui a_type =
     (if ui then ''NEAREST''
      else if a_type = ''binary'' then ''NEAREST''
      else (case img_getcolors L img 257 of
              None \<Rightarrow> ''LANCZOS''
            | Some colors \<Rightarrow>
                if colors \<noteq> [] \<and> length colors \<le> 256 then ''NEAREST'' else ''LANCZOS''))"

definition analyze_image :: "'img imaging \<Rightarrow> 'img \<Rightarrow> string \<Rightarrow> error + ImageAnalysis" where
  "analyze_image L img file_path =
     (let ui = is_ui_texture file_path
      in case alpha_channel L img of
           Inl e \<Rightarrow> Inl e
         | Inr alpha \<Rightarrow>
             (case classify_alpha alpha of
                Inl e \<Rightarrow> Inl e
              | Inr (a_type, transparent) \<Rightarrow>
                  Inr \<lparr>mode = img_mode L img, alpha_type = a_type, is_ui = ui,
                       has_transparency = transparent,
                       suggested_algorithm = suggest_algorithm L img ui a_type\<rparr>))"

subsection \<open>optimizer.py: save_candidate_buffer\<close>

text \<open>Lines 46 to 53: the keyword arguments of the save call, in the order written.\<close>

definition save_kwargs :: "string \<Rightarrow> int \<Rightarrow> kwargs" where
  "save_kwargs fmt compression =
     (if upper fmt = ''PNG'' then
        [(''format'', PStr ''PNG''), (''optimize'', PBool True),
         (''compress_level'', PInt compression)]
      else if upper fmt \<in> set [''JPG'', ''JPEG''] then
        [(''format'', PStr ''JPEG''),
         (''quality'', PInt (if compression = 0 then 85 else max 10 (100 - compression * 10))),
         (''optimize'', PBool True)]
      else if upper fmt = ''WEBP'' then
        [(''format'', PStr ''WEBP''),
         (''quality'', PInt (if compression = 0 then 85 else max 10 (100 - compression * 10)))]
      else [(''format'', PStr fmt)])"

text \<open>
  Lines 57 to 67: the image in the requested mode. The result is \<open>None\<close> when the library
  raises (the \<open>except\<close> clause then returns \<open>(None, None)\<close>) and when the mode is none of
  the three (the early \<open>return None, None\<close>): either way \<open>save_candidate_buffer\<close> returns
  \<open>(None, None)\<close>. The quantizer is called with method 2 and \<open>Dither.NONE\<close>, which is 0.
\<close>

definition select_mode :: "'img imaging \<Rightarrow> 'img \<Rightarrow> string \<Rightarrow> int option \<Rightarrow> 'img option" where
  "select_mode L img pix_mode colors =
     (if pix_mode = ''RGB'' then img_convert L img ''RGB''
      else if pix_mode = ''RGBA'' then img_convert L img ''RGBA''
      else if pix_mode = ''P'' then
        (case (if img_mode L img \<noteq> ''RGBA'' then img_convert L img ''RGBA'' else Some img) of
           None \<Rightarrow> None
         | Some img' \<Rightarrow>
             (let c = (case colors of Some n \<Rightarrow> n | None \<Rightarrow> 256)
              in img_quantize L img' c 2 0))
      else None)"

text \<open>Lines 70 and 71: an RGBA image is converted to RGB before a JPEG save.\<close>

definition jpeg_alpha_drop :: "'img imaging \<Rightarrow> string \<Rightarrow> 'img \<Rightarrow> 'img option" where
  "jpeg_alpha_drop L fmt out =
     (if upper fmt \<in> set [''JPG'', ''JPEG''] \<and> img_mode L out = ''RGBA''
      then img_convert L out ''RGB''
      else Some out)"

definition save_candidate_buffer ::
  "'img imaging \<Rightarrow> 'img \<Rightarrow> string \<Rightarrow> int option \<Rightarrow> int \<Rightarrow> string \<Rightarrow> bytes option \<times> nat option"
where
  "save_candidate_buffer L img pix_mode colors compression fmt =
     (case select_mode L img pix_mode colors of
        None \<Rightarrow> (None, None)
      | Some out \<Rightarrow>
          (case jpeg_alpha_drop L fmt out of
             None \<Rightarrow> (None, None)
           | Some out' \<Rightarrow>
               (case img_save L out' (save_kwargs fmt compression) of
                  None \<Rightarrow> (None, None)
                | Some (buffer, sz) \<Rightarrow> (Some buffer, Some sz))))"

subsection \<open>optimizer.py: smart_optimize\<close>

text \<open>
  The size to beat is a Python float: the size of the original file, or infinity. A
  finite float is a real number, and Python compares an integer with a float by their
  exact values, so \<open>size < best_size\<close> is the order of the reals, true against
  \<open>+inf\<close> and false against \<open>-inf\<close> and \<open>nan\<close>. \<open>float(n)\<close> of an encoded size is taken
  to be exact (sizes stay below \<open>2 ^ 53\<close>).
\<close>

datatype pyfloat = Finite real | PosInf | NegInf | NaN

definition lt_float :: "nat \<Rightarrow> pyfloat \<Rightarrow> bool" where
  "lt_float n f =
     (case f of Finite r \<Rightarrow> real n < r | PosInf \<Rightarrow> True | NegInf \<Rightarrow> False | NaN \<Rightarrow> False)"

record race_state =
  best_buffer :: "bytes option"
  best_size :: pyfloat
  best_mode :: string

text \<open>Line 107: \<open>f"{mode}-{colors}" if colors else mode\<close>; \<open>None\<close> and 0 are falsy.\<close>

definition candidate_label :: "string \<Rightarrow> int option \<Rightarrow> string" where
  "candidate_label pix_mode colors =
     (case colors of
        None \<Rightarrow> pix_mode
      | Some c \<Rightarrow> if c \<noteq> 0 then pix_mode @ ''-'' @ str_int c else pix_mode)"

text \<open>
  Lines 99 to 110: one turn of the race. A \<open>BytesIO\<close> object is always truthy, so
  \<open>buffer and size is not None\<close> holds exactly when both are not \<open>None\<close>. Closing the
  buffers that lose is left out: every buffer is a fresh object, and the one returned is
  never closed.
\<close>

definition race_step ::
  "'img imaging \<Rightarrow> 'img \<Rightarrow> int \<Rightarrow> string \<Rightarrow> race_state \<Rightarrow> candidate \<Rightarrow> race_state"
where
  "race_step L img compression fmt st cand =
     (case cand of (pix_mode, colors) \<Rightarrow>
        (case save_candidate_buffer L img pix_mode colors compression fmt of
           (Some buffer, Some sz) \<Rightarrow>
             if lt_float sz (best_size st)
             then \<lparr>best_buffer = Some buffer, best_size = Finite (real sz),
                   best_mode = candidate_label pix_mode colors\<rparr>
             else st
         | _ \<Rightarrow> st))"

definition smart_optimize ::
  "'img imaging \<Rightarrow> 'img \<Rightarrow> string \<Rightarrow> pyfloat \<Rightarrow> int \<Rightarrow> string \<Rightarrow> bool
     \<Rightarrow> error + (bytes option \<times> string \<times> pyfloat)"
where
  "smart_optimize L img file_path original_size compression fmt ignore_transparency =
     (case analyze_image L img file_path of
        Inl e \<Rightarrow> Inl e
      | Inr analysis \<Rightarrow>
          (let candidates = generate_candidates analysis ignore_transparency;
               st = foldl (race_step L img compression fmt)
                      \<lparr>best_buffer = None, best_size = original_size,
                       best_mode = ''Original''\<rparr> candidates
           in if best_buffer st = None then
                (let safe_mode =
                       (if ignore_transparency \<or> alpha_type analysis = ''none''
                        then ''RGB'' else ''RGBA'')
                 in case save_candidate_buffer L img safe_mode None compression fmt of
                      (fallback_buffer, best_size_int) \<Rightarrow>
                        Inr (fallback_buffer, safe_mode @ '' (Fallback)'',
                             (case best_size_int of
                                Some n \<Rightarrow> Finite (real n)
                              | None \<Rightarrow> PosInf)))
              else Inr (best_buffer st, best_mode st, best_size st)))"

subsection \<open>What the race is to find\<close>

text \<open>
  \<open>enc\<close> maps a candidate to the result of its trial encoding. \<open>no_winner enc f cs\<close>: no
  candidate of \<open>cs\<close> encodes successfully to a size below \<open>f\<close>. \<open>first_smallest enc cs pre
  c post b n\<close>: \<open>c\<close> stands in \<open>cs\<close> between \<open>pre\<close> and \<open>post\<close>, encodes successfully to
  the buffer \<open>b\<close> of size \<open>n\<close>, every successful encoding before it is strictly larger
  and every successful encoding after it is at least as large.
\<close>

definition encoding ::
  "'img imaging \<Rightarrow> 'img \<Rightarrow> int \<Rightarrow> string \<Rightarrow> candidate \<Rightarrow> bytes option \<times> nat option"
where
  "encoding L img compression fmt cand =
     save_candidate_buffer L img (fst cand) (snd cand) compression fmt"

definition no_winner ::
  "(candidate \<Rightarrow> bytes option \<times> nat option) \<Rightarrow> pyfloat \<Rightarrow> candidate list \<Rightarrow> bool"
where
  "no_winner enc f cs \<longleftrightarrow>
     (\<forall>c\<in>set cs. \<forall>b n. enc c = (Some b, Some n) \<longrightarrow> \<not> lt_float n f)"

definition first_smallest ::
  "(candidate \<Rightarrow> bytes option \<times> nat option) \<Rightarrow> candidate list
     \<Rightarrow> candidate list \<Rightarrow> candidate \<Rightarrow> candidate list \<Rightarrow> bytes \<Rightarrow> nat \<Rightarrow> bool"
where
  "first_smallest enc cs pre c post b n \<longleftrightarrow>
     cs = pre @ c # post \<and> enc c = (Some b, Some n)
     \<and> (\<forall>c'\<in>set pre. \<forall>b' n'. enc c' = (Some b', Some n') \<longrightarrow> n < n')
     \<and> (\<forall>c'\<in>set post. \<forall>b' n'. enc c' = (Some b', Some n') \<longrightarrow> n \<le> n')"

subsection \<open>A stand-in imaging library for concrete runs\<close>

text \<open>
  An image of the stand-in library is its mode, its alpha values (all 255 in mode RGB)
  and its palette size (0 unless the mode is P). A palette image keeps the alpha values of
  the RGBA image it was quantized from, as the quantizer of the library does with method
  2. The encoder is a table
  from the mode and the palette size of the image to the number of bytes written, and it
  refuses what the real encoders refuse: an unknown container, and a JPEG of an image
  that is not RGB.
\<close>

record stub_image =
  s_mode :: string
  s_alpha :: "8 word list"
  s_palette :: int

definition stub_convert :: "stub_image \<Rightarrow> string \<Rightarrow> stub_image option" where
  "stub_convert im m =
     (if m = ''RGBA'' then Some (im\<lparr>s_mode := ''RGBA'', s_palette := 0\<rparr>)
      else if m = ''RGB'' then
        Some (im\<lparr>s_mode := ''RGB'', s_alpha := map (\<lambda>a. 255) (s_alpha im), s_palette := 0\<rparr>)
      else None)"

definition stub_save ::
  "(string \<Rightarrow> int \<Rightarrow> nat) \<Rightarrow> stub_image \<Rightarrow> kwargs \<Rightarrow> (bytes \<times> nat) option"
where
  "stub_save encoded_size im kw =
     (case map_of kw ''format'' of
        Some (PStr f) \<Rightarrow>
          if upper f = ''PNG'' \<or> upper f = ''WEBP'' \<or> (upper f = ''JPEG'' \<and> s_mode im = ''RGB'')
          then Some (replicate (encoded_size (s_mode im) (s_palette im)) 0,
                     encoded_size (s_mode im) (s_palette im))
          else None
      | _ \<Rightarrow> None)"

definition stub_imaging :: "(string \<Rightarrow> int \<Rightarrow> nat) \<Rightarrow> stub_image imaging" where
  "stub_imaging encoded_size =
     \<lparr>img_mode = s_mode,
      img_convert = stub_convert,
      img_getchannel =
        (\<lambda>im ch. if ch = ''A'' \<and> s_mode im = ''RGBA'' then Some (s_alpha im) else None),
      img_getcolors = (\<lambda>im maxcolors. None),
      img_quantize =
        (\<lambda>im c m d. if 1 \<le> c \<and> c \<le> 256 then Some (im\<lparr>s_mode := ''P'', s_palette := c\<rparr>)
                    else None),
      img_save = stub_save encoded_size\<rparr>"

text \<open>A size table for concrete runs: 5 bytes for an RGB image, 3 bytes for any other.\<close>

definition example_sizes :: "string \<Rightarrow> int \<Rightarrow> nat" where
  "example_sizes m c = (if m = ''RGB'' then 5 else 3)"

section \<open>Properties of the candidate generator\<close>

text \<open>
  C2. With the ignore-transparency flag off, the generator follows the rule table:
  \<open>none\<close> gives RGB and, outside UI folders, the palettes of 256 and 128 colours;
  \<open>binary\<close> gives RGBA and, outside UI folders, the same two palettes; \<open>partial\<close> gives
  RGBA alone whatever the UI flag is. The lists are in this order.
\<close>

theorem generate_candidates_table:
  "generate_candidates
     \<lparr>mode = m, alpha_type = ''none'', is_ui = False, has_transparency = t,
      suggested_algorithm = s\<rparr> False
     = [(''RGB'', None), (''P'', Some 256), (''P'', Some 128)]
   \<and> generate_candidates
     \<lparr>mode = m, alpha_type = ''none'', is_ui = True, has_transparency = t,
      suggested_algorithm = s\<rparr> False
     = [(''RGB'', None)]
   \<and> generate_candidates
     \<lparr>mode = m, alpha_type = ''binary'', is_ui = False, has_transparency = t,
      suggested_algorithm = s\<rparr> False
     = [(''RGBA'', None), (''P'', Some 256), (''P'', Some 128)]
   \<and> generate_candidates
     \<lparr>mode = m, alpha_type = ''binary'', is_ui = True, has_transparency = t,
      suggested_algorithm = s\<rparr> False
     = [(''RGBA'', None)]
   \<and> generate_candidates
     \<lparr>mode = m, alpha_type = ''partial'', is_ui = u, has_transparency = t,
      suggested_algorithm = s\<rparr> False
     = [(''RGBA'', None)]"
  by (simp add: generate_candidates_def)

text \<open>
  C5. With the ignore-transparency flag on, the generator returns what it returns with
  the flag off for the same classification with its alpha type replaced by \<open>none\<close>.
\<close>

theorem generate_candidates_ignore_transparency:
  "generate_candidates c True = generate_candidates (c\<lparr>alpha_type := ''none''\<rparr>) False"
  by (simp add: generate_candidates_def)

text \<open>
  C9. For an alpha type among \<open>none\<close>, \<open>binary\<close> and \<open>partial\<close> and either value of the
  flag, the generator returns one to three candidates, and the first one is RGB or RGBA
  with no palette size.
\<close>

theorem generate_candidates_direct_first:
  assumes "alpha_type a \<in> {''none'', ''binary'', ''partial''}"
  shows "\<exists>m rest. generate_candidates a ign = (m, None) # rest
           \<and> m \<in> {''RGB'', ''RGBA''}
           \<and> generate_candidates a ign \<noteq> []
           \<and> 1 \<le> length (generate_candidates a ign)
           \<and> length (generate_candidates a ign) \<le> 3"
  using assms by (auto simp: generate_candidates_def)

theorem generate_candidates_direct_first_witness:
  "alpha_type \<lparr>mode = ''RGBA'', alpha_type = ''binary'', is_ui = False,
       has_transparency = True, suggested_algorithm = ''NEAREST''\<rparr>
     \<in> {''none'', ''binary'', ''partial''}
   \<and> (\<exists>m rest.
         generate_candidates \<lparr>mode = ''RGBA'', alpha_type = ''binary'', is_ui = False,
           has_transparency = True, suggested_algorithm = ''NEAREST''\<rparr> False
           = (m, None) # rest
         \<and> m \<in> {''RGB'', ''RGBA''}
         \<and> generate_candidates \<lparr>mode = ''RGBA'', alpha_type = ''binary'', is_ui = False,
           has_transparency = True, suggested_algorithm = ''NEAREST''\<rparr> False \<noteq> []
         \<and> 1 \<le> length (generate_candidates \<lparr>mode = ''RGBA'', alpha_type = ''binary'',
           is_ui = False, has_transparency = True, suggested_algorithm = ''NEAREST''\<rparr> False)
         \<and> length (generate_candidates \<lparr>mode = ''RGBA'', alpha_type = ''binary'',
           is_ui = False, has_transparency = True, suggested_algorithm = ''NEAREST''\<rparr> False)
             \<le> 3)"
  using generate_candidates_direct_first
    [of "\<lparr>mode = ''RGBA'', alpha_type = ''binary'', is_ui = False,
          has_transparency = True, suggested_algorithm = ''NEAREST''\<rparr>" False]
  by simp

section \<open>Properties of the path test\<close>

lemma split_str_replace_char:
  "split_str (CHR ''/'') (replace_char (CHR 0x5C) (CHR ''/'') s)
     = split_any {CHR ''/'', CHR 0x5C} s"
  by (induction s) (auto simp: replace_char_def split: list.splits)

text \<open>
  C6. \<open>is_ui_texture\<close> holds exactly when one whole segment of the lower-cased path, cut
  at every slash and every backslash, is one of \<open>ui\<close>, \<open>gui\<close>, \<open>colormap\<close>, \<open>font\<close>. A
  file \<open>build.png\<close> in a folder \<open>build\<close> and a folder \<open>guide\<close> do not match although
  they contain \<open>ui\<close>; a folder \<open>ui\<close> matches with either separator and in either case.
\<close>

theorem is_ui_texture_whole_segment:
  "is_ui_texture path = (\<exists>seg\<in>set (path_segments path). seg \<in> ui_keywords)
   \<and> \<not> is_ui_texture ''build/build.png''
   \<and> \<not> is_ui_texture ''textures/guide/stone.png''
   \<and> is_ui_texture ''textures/ui/button.png''
   \<and> is_ui_texture (''C:'' @ [CHR 0x5C] @ ''Textures'' @ [CHR 0x5C] @ ''UI''
                       @ [CHR 0x5C] @ ''heart.png'')"
proof -
  have "is_ui_texture path = (\<exists>seg\<in>set (path_segments path). seg \<in> ui_keywords)"
    by (simp add: is_ui_texture_def path_segments_def split_str_replace_char list_ex_iff)
  moreover have "\<not> is_ui_texture ''build/build.png''"
    by (simp add: is_ui_texture_def lower_def lower_char_def replace_char_def ui_keywords_def)
  moreover have "\<not> is_ui_texture ''textures/guide/stone.png''"
    by (simp add: is_ui_texture_def lower_def lower_char_def replace_char_def ui_keywords_def)
  moreover have "is_ui_texture ''textures/ui/button.png''"
    by (simp add: is_ui_texture_def lower_def lower_char_def replace_char_def ui_keywords_def)
  moreover have "is_ui_texture (''C:'' @ [CHR 0x5C] @ ''Textures'' @ [CHR 0x5C] @ ''UI''
                       @ [CHR 0x5C] @ ''heart.png'')"
    by (simp add: is_ui_texture_def lower_def lower_char_def replace_char_def ui_keywords_def)
  ultimately show ?thesis by blast
qed

section \<open>Properties of the classifier\<close>

lemma getextrema_Min_Max:
  assumes "chan \<noteq> []"
  shows "getextrema chan = Some (Min (set chan), Max (set chan))"
proof (cases chan)
  case Nil
  with assms show ?thesis by simp
next
  case (Cons a as)
  have "fold min as a = Min (set (a # as))" "fold max as a = Max (set (a # as))"
    by (simp_all only: Min.set_eq_fold Max.set_eq_fold)
  with Cons show ?thesis by (simp add: getextrema_def)
qed

lemma card_channel_values: "card (set (chan :: 8 word list)) \<le> 256"
proof -
  have "card (set chan) \<le> card (UNIV :: 8 word set)"
    by (rule card_mono) simp_all
  then show ?thesis by (simp add: card_word)
qed

text \<open>A channel of 8-bit values never has more than 257 distinct values.\<close>

lemma getcolors_257:
  "getcolors chan 257 = Some (map (\<lambda>v. (count_list chan v, v)) (sort (remdups chan)))"
  using card_channel_values [of chan]
  by (simp add: getcolors_def length_remdups_card_conv)

lemma classify_alpha_eq:
  assumes "chan \<noteq> []"
  shows "classify_alpha chan =
     Inr (if \<exists>a\<in>set chan. a < 255
          then (if card (set chan) \<le> 2 \<and> set chan \<subseteq> {0, 255}
                then ''binary'' else ''partial'', True)
          else (''none'', False))"
proof -
  have least: "(Min (set chan) < 255) = (\<exists>a\<in>set chan. a < 255)"
    using assms by (simp add: Min_less_iff)
  have ne: "sort (remdups chan) \<noteq> []"
    using assms by (metis set_empty set_remdups set_sort)
  have every: "list_all (\<lambda>v. snd v = 0 \<or> snd v = 255)
                 (map (\<lambda>v. (count_list chan v, v)) (sort (remdups chan)))
      = (set chan \<subseteq> {0, 255})"
    by (auto simp: list_all_iff)
  show ?thesis
    using ne
    by (simp add: classify_alpha_def getextrema_Min_Max [OF assms] least getcolors_257 every
          length_remdups_card_conv)
qed

lemma classify_alpha_none:
  "classify_alpha chan = Inr (t, b) \<Longrightarrow> t = ''none'' \<Longrightarrow> \<not> b"
  by (auto simp: classify_alpha_def split: option.splits if_splits prod.splits)

lemma analyze_image_Inr:
  "analyze_image L img file_path = Inr A \<longleftrightarrow>
     (\<exists>chan t b. alpha_channel L img = Inr chan \<and> classify_alpha chan = Inr (t, b)
        \<and> A = \<lparr>mode = img_mode L img, alpha_type = t, is_ui = is_ui_texture file_path,
                has_transparency = b,
                suggested_algorithm =
                  suggest_algorithm L img (is_ui_texture file_path) t\<rparr>)"
  by (auto simp: analyze_image_def Let_def split: sum.splits prod.splits)

lemma stub_imaging_simps:
  "img_mode (stub_imaging f) = s_mode"
  "img_convert (stub_imaging f) = stub_convert"
  "img_getchannel (stub_imaging f) =
     (\<lambda>im ch. if ch = ''A'' \<and> s_mode im = ''RGBA'' then Some (s_alpha im) else None)"
  "img_getcolors (stub_imaging f) = (\<lambda>im maxcolors. None)"
  "img_quantize (stub_imaging f) =
     (\<lambda>im c m d. if 1 \<le> c \<and> c \<le> 256 then Some (im\<lparr>s_mode := ''P'', s_palette := c\<rparr>)
                 else None)"
  "img_save (stub_imaging f) = stub_save f"
  by (simp_all add: stub_imaging_def)

text \<open>
  C4. For an image whose alpha channel has a value below 255, \<open>analyze_image\<close> returns a
  classification with \<open>has_transparency\<close> set, whose alpha type is \<open>binary\<close> exactly when
  the distinct alpha values are at most two and all among 0 and 255, and \<open>partial\<close>
  otherwise. So any alpha value strictly between 0 and 255 gives \<open>partial\<close>, and the
  value set \<open>{0, 255}\<close> gives \<open>binary\<close>. The alpha channel is the one \<open>analyze_image\<close>
  reads: that of the image itself in mode RGBA, of its RGBA conversion otherwise.
\<close>

theorem analyze_image_transparent:
  assumes "alpha_channel L img = Inr chan" and "\<exists>a\<in>set chan. a < 255"
  shows "\<exists>A. analyze_image L img file_path = Inr A
           \<and> has_transparency A
           \<and> alpha_type A = (if card (set chan) \<le> 2 \<and> set chan \<subseteq> {0, 255}
                              then ''binary'' else ''partial'')
           \<and> ((\<exists>a\<in>set chan. 0 < a \<and> a < 255) \<longrightarrow> alpha_type A = ''partial'')
           \<and> (set chan = {0, 255} \<longrightarrow> alpha_type A = ''binary'')"
proof -
  define t where "t = (if card (set chan) \<le> 2 \<and> set chan \<subseteq> {0, 255}
                              then ''binary'' else ''partial'')"
  define A where "A = \<lparr>mode = img_mode L img, alpha_type = t,
     is_ui = is_ui_texture file_path, has_transparency = True,
     suggested_algorithm = suggest_algorithm L img (is_ui_texture file_path) t\<rparr>"
  from assms(2) have ne: "chan \<noteq> []" by auto
  have cl: "classify_alpha chan = Inr (t, True)"
    using assms(2) unfolding t_def by (simp add: classify_alpha_eq [OF ne])
  have res: "analyze_image L img file_path = Inr A"
    unfolding analyze_image_Inr A_def using assms(1) cl by blast
  have mid: "t = ''partial''" if "\<exists>a\<in>set chan. 0 < a \<and> a < 255"
  proof -
    from that obtain a where "a \<in> set chan" "0 < a" "a < 255" by blast
    then have "\<not> set chan \<subseteq> {0, 255}" by auto
    then show ?thesis by (simp add: t_def)
  qed
  have two: "t = ''binary''" if "set chan = {0, 255}"
  proof -
    have "card {0, 255 :: 8 word} \<le> 2" by (simp add: card_insert_if)
    with that show ?thesis by (simp add: t_def)
  qed
  have sel: "has_transparency A" "alpha_type A = t" by (simp_all add: A_def)
  show ?thesis
  proof (rule exI [of _ A], intro conjI impI)
    show "analyze_image L img file_path = Inr A" by (rule res)
    show "has_transparency A" by (rule sel(1))
    show "alpha_type A = (if card (set chan) \<le> 2 \<and> set chan \<subseteq> {0, 255}
                              then ''binary'' else ''partial'')"
      using sel(2) unfolding t_def .
    show "alpha_type A = ''partial''" if "\<exists>a\<in>set chan. 0 < a \<and> a < 255"
      using sel(2) mid [OF that] by (rule trans)
    show "alpha_type A = ''binary''" if "set chan = {0, 255}"
      using sel(2) two [OF that] by (rule trans)
  qed
qed

theorem analyze_image_transparent_witness:
  "alpha_channel (stub_imaging (\<lambda>m c. 5))
      \<lparr>s_mode = ''RGBA'', s_alpha = [0, 255, 0], s_palette = 0\<rparr> = Inr [0, 255, 0]
   \<and> (\<exists>a\<in>set [0, 255, 0 :: 8 word]. a < 255)
   \<and> (\<exists>A. analyze_image (stub_imaging (\<lambda>m c. 5))
             \<lparr>s_mode = ''RGBA'', s_alpha = [0, 255, 0], s_palette = 0\<rparr> ''leaves.png'' = Inr A
          \<and> has_transparency A \<and> alpha_type A = ''binary'')"
proof -
  let ?L = "stub_imaging (\<lambda>m c. 5)"
  let ?I = "\<lparr>s_mode = ''RGBA'', s_alpha = [0, 255, 0], s_palette = 0\<rparr>"
  have h1: "alpha_channel ?L ?I = Inr [0, 255, 0]"
    by (simp add: alpha_channel_def stub_imaging_simps)
  have h2: "\<exists>a\<in>set [0, 255, 0 :: 8 word]. a < 255" by simp
  have h3: "set [0, 255, 0 :: 8 word] = {0, 255}" by auto
  from analyze_image_transparent [OF h1 h2, of "''leaves.png''"]
  obtain A where a: "analyze_image ?L ?I ''leaves.png'' = Inr A
           \<and> has_transparency A
           \<and> alpha_type A = (if card (set [0, 255, 0 :: 8 word]) \<le> 2
                                  \<and> set [0, 255, 0 :: 8 word] \<subseteq> {0, 255}
                              then ''binary'' else ''partial'')
           \<and> ((\<exists>a\<in>set [0, 255, 0 :: 8 word]. 0 < a \<and> a < 255) \<longrightarrow> alpha_type A = ''partial'')
           \<and> (set [0, 255, 0 :: 8 word] = {0, 255} \<longrightarrow> alpha_type A = ''binary'')" ..
  from a have r: "analyze_image ?L ?I ''leaves.png'' = Inr A" by (rule conjunct1)
  from a have ht: "has_transparency A" by (elim conjE)
  from a have "set [0, 255, 0 :: 8 word] = {0, 255} \<longrightarrow> alpha_type A = ''binary''"
    by (elim conjE)
  with h3 have bin: "alpha_type A = ''binary''" by (rule rev_mp)
  have "\<exists>A. analyze_image ?L ?I ''leaves.png'' = Inr A \<and> has_transparency A
      \<and> alpha_type A = ''binary''"
    by (rule exI [of _ A]) (intro conjI r ht bin)
  with h1 h2 show ?thesis by (intro conjI)
qed

text \<open>
  C7, as the code has it. A classification returned by \<open>analyze_image\<close> with alpha type
  \<open>none\<close> has \<open>has_transparency\<close> false. For an image with at least one pixel whose alpha
  values (as \<open>analyze_image\<close> reads them, so 255 throughout for a mode without alpha
  channel that the library converts to RGBA) are all 255, \<open>analyze_image\<close> returns a
  classification with alpha type \<open>none\<close> and \<open>has_transparency\<close> false.
\<close>

theorem analyze_image_opaque:
  "(analyze_image L img file_path = Inr A \<longrightarrow> alpha_type A = ''none''
      \<longrightarrow> \<not> has_transparency A)
   \<and> (alpha_channel L img = Inr chan \<and> chan \<noteq> [] \<and> (\<forall>a\<in>set chan. a = 255)
        \<longrightarrow> (\<exists>B. analyze_image L img file_path = Inr B
              \<and> alpha_type B = ''none'' \<and> \<not> has_transparency B))"
proof (intro conjI impI)
  assume "analyze_image L img file_path = Inr A" and "alpha_type A = ''none''"
  then obtain c t b where "classify_alpha c = Inr (t, b)" "alpha_type A = t"
    "has_transparency A = b"
    unfolding analyze_image_Inr by auto
  with \<open>alpha_type A = ''none''\<close> show "\<not> has_transparency A"
    using classify_alpha_none [of c t b] by simp
next
  assume h: "alpha_channel L img = Inr chan \<and> chan \<noteq> [] \<and> (\<forall>a\<in>set chan. a = 255)"
  then have cl: "classify_alpha chan = Inr (''none'', False)"
    by (simp add: classify_alpha_eq)
  define B where "B = \<lparr>mode = img_mode L img, alpha_type = ''none'',
     is_ui = is_ui_texture file_path, has_transparency = False,
     suggested_algorithm = suggest_algorithm L img (is_ui_texture file_path) ''none''\<rparr>"
  have "analyze_image L img file_path = Inr B"
    unfolding analyze_image_Inr B_def using h cl by blast
  moreover have "alpha_type B = ''none''" "\<not> has_transparency B"
    by (simp_all add: B_def)
  ultimately show "\<exists>B. analyze_image L img file_path = Inr B
              \<and> alpha_type B = ''none'' \<and> \<not> has_transparency B"
    by (intro exI [of _ B] conjI)
qed

theorem analyze_image_opaque_witness:
  "analyze_image (stub_imaging (\<lambda>m c. 5))
        \<lparr>s_mode = ''RGB'', s_alpha = [255, 255], s_palette = 0\<rparr> ''stone.png''
       = Inr \<lparr>mode = ''RGB'', alpha_type = ''none'', is_ui = False, has_transparency = False,
              suggested_algorithm = ''LANCZOS''\<rparr>
   \<and> alpha_channel (stub_imaging (\<lambda>m c. 5))
      \<lparr>s_mode = ''RGB'', s_alpha = [255, 255], s_palette = 0\<rparr> = Inr [255, 255]
   \<and> [255, 255 :: 8 word] \<noteq> []
   \<and> list_all (\<lambda>a. a = 255) [255, 255 :: 8 word]
   \<and> \<not> has_transparency \<lparr>mode = ''RGB'', alpha_type = ''none'', is_ui = False,
          has_transparency = False, suggested_algorithm = ''LANCZOS''\<rparr>
   \<and> (\<exists>B. analyze_image (stub_imaging (\<lambda>m c. 5))
        \<lparr>s_mode = ''RGB'', s_alpha = [255, 255], s_palette = 0\<rparr> ''stone.png'' = Inr B
        \<and> alpha_type B = ''none'' \<and> \<not> has_transparency B)"
proof -
  let ?L = "stub_imaging (\<lambda>m c. 5)"
  let ?I = "\<lparr>s_mode = ''RGB'', s_alpha = [255, 255], s_palette = 0\<rparr>"
  let ?A = "\<lparr>mode = ''RGB'', alpha_type = ''none'', is_ui = False, has_transparency = False,
              suggested_algorithm = ''LANCZOS''\<rparr>"
  have h1: "alpha_channel ?L ?I = Inr [255, 255]"
    by (simp add: alpha_channel_def stub_imaging_simps stub_convert_def)
  have ui: "\<not> is_ui_texture ''stone.png''"
    by (simp add: is_ui_texture_def lower_def lower_char_def replace_char_def ui_keywords_def)
  have h2: "analyze_image ?L ?I ''stone.png'' = Inr ?A"
    by (simp add: analyze_image_def h1 ui classify_alpha_def getextrema_def
          suggest_algorithm_def stub_imaging_simps)
  have h3: "alpha_type ?A = ''none''" by simp
  have h4: "[255, 255 :: 8 word] \<noteq> []" by simp
  have h5: "\<forall>a\<in>set [255, 255 :: 8 word]. a = 255" by simp
  have h6: "list_all (\<lambda>a. a = 255) [255, 255 :: 8 word]" by simp
  note both = analyze_image_opaque [of ?L ?I "''stone.png''" ?A "[255, 255]"]
  from both have "analyze_image ?L ?I ''stone.png'' = Inr ?A \<longrightarrow> alpha_type ?A = ''none''
      \<longrightarrow> \<not> has_transparency ?A" by (rule conjunct1)
  with h2 h3 have c1: "\<not> has_transparency ?A" by (elim impE)
  from both have "alpha_channel ?L ?I = Inr [255, 255] \<and> [255, 255 :: 8 word] \<noteq> []
        \<and> (\<forall>a\<in>set [255, 255 :: 8 word]. a = 255)
        \<longrightarrow> (\<exists>B. analyze_image ?L ?I ''stone.png'' = Inr B
              \<and> alpha_type B = ''none'' \<and> \<not> has_transparency B)" by (rule conjunct2)
  moreover have "alpha_channel ?L ?I = Inr [255, 255] \<and> [255, 255 :: 8 word] \<noteq> []
        \<and> (\<forall>a\<in>set [255, 255 :: 8 word]. a = 255)"
    using h1 h4 h5 by (intro conjI)
  ultimately have c2: "\<exists>B. analyze_image ?L ?I ''stone.png'' = Inr B
              \<and> alpha_type B = ''none'' \<and> \<not> has_transparency B" by (rule mp)
  from h2 h1 h4 h6 c1 c2 show ?thesis by (intro conjI)
qed

text \<open>
  C7 as the specification states it, for every image whose alpha values are all 255,
  does not hold for an image with no pixel: all of its alpha values are 255, none being
  there, its alpha channel has no extrema, and \<open>analyze_image\<close> raises \<open>TypeError\<close> where
  it unpacks them instead of returning a classification.
\<close>

theorem analyze_image_opaque_counterexample:
  "alpha_channel (stub_imaging example_sizes)
      \<lparr>s_mode = ''RGBA'', s_alpha = [], s_palette = 0\<rparr> = Inr []
   \<and> getextrema [] = None
   \<and> analyze_image (stub_imaging example_sizes)
        \<lparr>s_mode = ''RGBA'', s_alpha = [], s_palette = 0\<rparr> ''empty.png'' = Inl TypeError"
proof -
  have a: "alpha_channel (stub_imaging example_sizes)
      \<lparr>s_mode = ''RGBA'', s_alpha = [], s_palette = 0\<rparr> = Inr []"
    by (simp add: alpha_channel_def stub_imaging_simps)
  have b: "getextrema [] = None" by (simp add: getextrema_def)
  have c: "analyze_image (stub_imaging example_sizes)
        \<lparr>s_mode = ''RGBA'', s_alpha = [], s_palette = 0\<rparr> ''empty.png'' = Inl TypeError"
    by (simp add: analyze_image_def a classify_alpha_def b)
  from a b c show ?thesis by (intro conjI)
qed

section \<open>Properties of the race\<close>

lemma lt_float_Finite: "lt_float n (Finite (real m)) = (n < m)"
  by (simp add: lt_float_def)

lemma lt_float_trans: "n' < n \<Longrightarrow> lt_float n f \<Longrightarrow> lt_float n' f"
  by (cases f) (simp_all add: lt_float_def)

lemma lt_float_not: "lt_float n f \<Longrightarrow> \<not> lt_float n' f \<Longrightarrow> n < n'"
  by (cases f) (simp_all add: lt_float_def)

lemma race_step_encoding:
  "race_step L img lvl fmt st c =
     (case encoding L img lvl fmt c of
        (Some b, Some n) \<Rightarrow>
          if lt_float n (best_size st)
          then \<lparr>best_buffer = Some b, best_size = Finite (real n),
                best_mode = candidate_label (fst c) (snd c)\<rparr>
          else st
      | _ \<Rightarrow> st)"
  by (cases c) (simp add: race_step_def encoding_def split: prod.split option.split)

lemma race_step_win:
  assumes "encoding L img lvl fmt c = (Some b, Some n)" "lt_float n (best_size st)"
  shows "race_step L img lvl fmt st c =
    \<lparr>best_buffer = Some b, best_size = Finite (real n),
     best_mode = candidate_label (fst c) (snd c)\<rparr>"
  using assms by (simp add: race_step_encoding)

lemma race_step_keep:
  assumes "\<forall>b n. encoding L img lvl fmt c = (Some b, Some n) \<longrightarrow> \<not> lt_float n (best_size st)"
  shows "race_step L img lvl fmt st c = st"
  using assms by (auto simp: race_step_encoding split: prod.splits option.splits)

lemma race_foldl:
  fixes L :: "'img imaging" and img :: 'img and lvl :: int and fmt :: string
  defines "enc \<equiv> encoding L img lvl fmt"
  shows "(no_winner enc (best_size st) cs \<and> foldl (race_step L img lvl fmt) st cs = st)
       \<or> (\<exists>pre c post b n. first_smallest enc cs pre c post b n
              \<and> lt_float n (best_size st)
              \<and> foldl (race_step L img lvl fmt) st cs =
                  \<lparr>best_buffer = Some b, best_size = Finite (real n),
                   best_mode = candidate_label (fst c) (snd c)\<rparr>)"
proof (induction cs arbitrary: st)
  case Nil
  show ?case by (simp add: no_winner_def)
next
  case (Cons x xs)
  let ?step = "race_step L img lvl fmt"
  show ?case
  proof (cases "\<exists>b n. enc x = (Some b, Some n) \<and> lt_float n (best_size st)")
    case True
    then obtain b n where x: "enc x = (Some b, Some n)" and lt: "lt_float n (best_size st)"
      by blast
    define st' where "st' = \<lparr>best_buffer = Some b, best_size = Finite (real n),
                best_mode = candidate_label (fst x) (snd x)\<rparr>"
    have step: "?step st x = st'"
      using x lt unfolding enc_def st'_def by (rule race_step_win)
    have bs: "best_size st' = Finite (real n)" by (simp add: st'_def)
    from Cons.IH [of st'] show ?thesis
    proof (elim disjE conjE exE)
      assume nw: "no_winner enc (best_size st') xs" and eq: "foldl ?step st' xs = st'"
      have "first_smallest enc (x # xs) [] x xs b n"
        using nw x by (auto simp: first_smallest_def no_winner_def bs not_less lt_float_Finite)
      moreover have "foldl ?step st (x # xs) = st'" by (simp add: step eq)
      ultimately show ?thesis using lt unfolding st'_def by blast
    next
      fix pre c post b2 n2
      assume fs: "first_smallest enc xs pre c post b2 n2"
        and lt2: "lt_float n2 (best_size st')"
        and eq: "foldl ?step st' xs = \<lparr>best_buffer = Some b2, best_size = Finite (real n2),
                   best_mode = candidate_label (fst c) (snd c)\<rparr>"
      from lt2 have less: "n2 < n" by (simp add: bs lt_float_Finite)
      have "first_smallest enc (x # xs) (x # pre) c post b2 n2"
        using fs x less by (auto simp: first_smallest_def)
      moreover have "lt_float n2 (best_size st)" using less lt by (rule lt_float_trans)
      moreover have "foldl ?step st (x # xs) = \<lparr>best_buffer = Some b2, best_size = Finite (real n2),
                   best_mode = candidate_label (fst c) (snd c)\<rparr>" by (simp add: step eq)
      ultimately show ?thesis by blast
    qed
  next
    case False
    then have keep: "\<forall>b n. encoding L img lvl fmt x = (Some b, Some n) \<longrightarrow> \<not> lt_float n (best_size st)"
      unfolding enc_def by blast
    have step: "?step st x = st" using keep by (rule race_step_keep)
    from Cons.IH [of st] show ?thesis
    proof (elim disjE conjE exE)
      assume nw: "no_winner enc (best_size st) xs" and eq: "foldl ?step st xs = st"
      have "no_winner enc (best_size st) (x # xs)"
        using nw False by (auto simp: no_winner_def)
      moreover have "foldl ?step st (x # xs) = st" by (simp add: step eq)
      ultimately show ?thesis by blast
    next
      fix pre c post b2 n2
      assume fs: "first_smallest enc xs pre c post b2 n2"
        and lt2: "lt_float n2 (best_size st)"
        and eq: "foldl ?step st xs = \<lparr>best_buffer = Some b2, best_size = Finite (real n2),
                   best_mode = candidate_label (fst c) (snd c)\<rparr>"
      have "n2 < n'" if "enc x = (Some b', Some n')" for b' n'
      proof -
        from that False have "\<not> lt_float n' (best_size st)" by blast
        with lt2 show ?thesis by (rule lt_float_not)
      qed
      then have "first_smallest enc (x # xs) (x # pre) c post b2 n2"
        using fs by (auto simp: first_smallest_def)
      moreover have "foldl ?step st (x # xs) = \<lparr>best_buffer = Some b2, best_size = Finite (real n2),
                   best_mode = candidate_label (fst c) (snd c)\<rparr>" by (simp add: step eq)
      ultimately show ?thesis using lt2 by blast
    qed
  qed
qed

lemma smart_optimize_Inr:
  assumes "analyze_image L img file_path = Inr a"
  shows "smart_optimize L img file_path original_size lvl fmt ign =
     (if best_buffer (foldl (race_step L img lvl fmt)
            \<lparr>best_buffer = None, best_size = original_size, best_mode = ''Original''\<rparr>
            (generate_candidates a ign)) = None
      then Inr (fst (save_candidate_buffer L img
                      (if ign \<or> alpha_type a = ''none'' then ''RGB'' else ''RGBA'') None lvl fmt),
                (if ign \<or> alpha_type a = ''none'' then ''RGB'' else ''RGBA'') @ '' (Fallback)'',
                (case snd (save_candidate_buffer L img
                      (if ign \<or> alpha_type a = ''none'' then ''RGB'' else ''RGBA'') None lvl fmt) of
                   Some n \<Rightarrow> Finite (real n) | None \<Rightarrow> PosInf))
      else Inr (best_buffer (foldl (race_step L img lvl fmt)
            \<lparr>best_buffer = None, best_size = original_size, best_mode = ''Original''\<rparr>
            (generate_candidates a ign)),
           best_mode (foldl (race_step L img lvl fmt)
            \<lparr>best_buffer = None, best_size = original_size, best_mode = ''Original''\<rparr>
            (generate_candidates a ign)),
           best_size (foldl (race_step L img lvl fmt)
            \<lparr>best_buffer = None, best_size = original_size, best_mode = ''Original''\<rparr>
            (generate_candidates a ign))))"
  by (simp add: smart_optimize_def assms Let_def split: prod.split)

lemma race_outcome:
  fixes L :: "'img imaging" and img :: 'img and lvl :: int and fmt :: string
    and original_size :: pyfloat
  defines "st0 \<equiv> \<lparr>best_buffer = None, best_size = original_size, best_mode = ''Original''\<rparr>"
  shows "(no_winner (encoding L img lvl fmt) original_size cs
            \<and> foldl (race_step L img lvl fmt) st0 cs = st0)
       \<or> (\<exists>pre c post b n. first_smallest (encoding L img lvl fmt) cs pre c post b n
              \<and> lt_float n original_size
              \<and> foldl (race_step L img lvl fmt) st0 cs =
                  \<lparr>best_buffer = Some b, best_size = Finite (real n),
                   best_mode = candidate_label (fst c) (snd c)\<rparr>)"
  using race_foldl [of L img lvl fmt st0 cs] by (simp add: st0_def)

text \<open>
  C1. When the analysis returns and at least one generated candidate encodes
  successfully to a size strictly below the baseline, \<open>smart_optimize\<close> returns the
  buffer, the label and the size of one candidate whose size is the smallest among all
  successful encodings of the generated candidates; every successful encoding before that
  candidate in the list is strictly larger, so a tie goes to the first candidate that
  reaches the size.
\<close>

theorem smart_optimize_global_minimum:
  assumes "analyze_image L img file_path = Inr a"
    and "\<exists>c\<in>set (generate_candidates a ign). \<exists>b n.
           encoding L img lvl fmt c = (Some b, Some n) \<and> lt_float n original_size"
  shows "\<exists>pre c post b n.
           first_smallest (encoding L img lvl fmt) (generate_candidates a ign) pre c post b n
           \<and> (\<forall>c'\<in>set (generate_candidates a ign). \<forall>b' n'.
                 encoding L img lvl fmt c' = (Some b', Some n') \<longrightarrow> n \<le> n')
           \<and> smart_optimize L img file_path original_size lvl fmt ign
               = Inr (Some b, candidate_label (fst c) (snd c), Finite (real n))"
proof -
  let ?cs = "generate_candidates a ign"
  let ?st0 = "\<lparr>best_buffer = None, best_size = original_size, best_mode = ''Original''\<rparr>"
  have "\<not> no_winner (encoding L img lvl fmt) original_size ?cs"
    using assms(2) unfolding no_winner_def by blast
  with race_outcome [of L img lvl fmt original_size ?cs]
  obtain pre c post b n where fs: "first_smallest (encoding L img lvl fmt) ?cs pre c post b n"
    and st: "foldl (race_step L img lvl fmt) ?st0 ?cs =
               \<lparr>best_buffer = Some b, best_size = Finite (real n),
                best_mode = candidate_label (fst c) (snd c)\<rparr>"
    by blast
  have least: "\<forall>c'\<in>set ?cs. \<forall>b' n'. encoding L img lvl fmt c' = (Some b', Some n') \<longrightarrow> n \<le> n'"
  proof (intro ballI allI impI)
    fix c' b' n'
    assume "c' \<in> set ?cs" and e: "encoding L img lvl fmt c' = (Some b', Some n')"
    with fs have "c' \<in> set pre \<or> c' = c \<or> c' \<in> set post"
      by (auto simp: first_smallest_def)
    then show "n \<le> n'"
      using fs e by (auto simp: first_smallest_def dest: less_imp_le)
  qed
  have "smart_optimize L img file_path original_size lvl fmt ign
               = Inr (Some b, candidate_label (fst c) (snd c), Finite (real n))"
    by (simp add: smart_optimize_Inr [OF assms(1)] st)
  with fs least show ?thesis by blast
qed

text \<open>
  C3, as the code has it. When the analysis returns and no generated candidate encodes
  successfully to a size strictly below the baseline, \<open>smart_optimize\<close> returns the
  outcome of one more encoding, in mode RGB if the flag is set or the alpha type is
  \<open>none\<close> and in mode RGBA otherwise, under that mode's name followed by \<open>(Fallback)\<close>.
  The result carries the buffer and the size of that encoding when it succeeds; when it
  fails the result carries no buffer and the size \<open>+inf\<close>.
\<close>

theorem smart_optimize_fallback:
  assumes "analyze_image L img file_path = Inr a"
    and "\<forall>c\<in>set (generate_candidates a ign). \<forall>b n.
           encoding L img lvl fmt c = (Some b, Some n) \<longrightarrow> \<not> lt_float n original_size"
    and "safe_mode = (if ign \<or> alpha_type a = ''none'' then ''RGB'' else ''RGBA'')"
  shows "smart_optimize L img file_path original_size lvl fmt ign
           = Inr (fst (save_candidate_buffer L img safe_mode None lvl fmt),
                  safe_mode @ '' (Fallback)'',
                  (case snd (save_candidate_buffer L img safe_mode None lvl fmt) of
                     Some n \<Rightarrow> Finite (real n) | None \<Rightarrow> PosInf))
         \<and> (\<forall>b n. save_candidate_buffer L img safe_mode None lvl fmt = (Some b, Some n) \<longrightarrow>
               smart_optimize L img file_path original_size lvl fmt ign
                 = Inr (Some b, safe_mode @ '' (Fallback)'', Finite (real n)))
         \<and> (save_candidate_buffer L img safe_mode None lvl fmt = (None, None) \<longrightarrow>
               smart_optimize L img file_path original_size lvl fmt ign
                 = Inr (None, safe_mode @ '' (Fallback)'', PosInf))"
proof -
  let ?cs = "generate_candidates a ign"
  let ?st0 = "\<lparr>best_buffer = None, best_size = original_size, best_mode = ''Original''\<rparr>"
  have nw: "no_winner (encoding L img lvl fmt) original_size ?cs"
    using assms(2) unfolding no_winner_def .
  have "\<not> (\<exists>pre c post b n. first_smallest (encoding L img lvl fmt) ?cs pre c post b n
              \<and> lt_float n original_size)"
    using nw by (auto simp: first_smallest_def no_winner_def)
  with race_outcome [of L img lvl fmt original_size ?cs]
  have st: "foldl (race_step L img lvl fmt) ?st0 ?cs = ?st0" by blast
  have eq: "smart_optimize L img file_path original_size lvl fmt ign
           = Inr (fst (save_candidate_buffer L img safe_mode None lvl fmt),
                  safe_mode @ '' (Fallback)'',
                  (case snd (save_candidate_buffer L img safe_mode None lvl fmt) of
                     Some n \<Rightarrow> Finite (real n) | None \<Rightarrow> PosInf))"
    unfolding assms(3) by (simp add: smart_optimize_Inr [OF assms(1)] st)
  show ?thesis
  proof (intro conjI allI impI)
    show "smart_optimize L img file_path original_size lvl fmt ign
           = Inr (fst (save_candidate_buffer L img safe_mode None lvl fmt),
                  safe_mode @ '' (Fallback)'',
                  (case snd (save_candidate_buffer L img safe_mode None lvl fmt) of
                     Some n \<Rightarrow> Finite (real n) | None \<Rightarrow> PosInf))" by (rule eq)
  next
    fix b n
    assume "save_candidate_buffer L img safe_mode None lvl fmt = (Some b, Some n)"
    with eq show "smart_optimize L img file_path original_size lvl fmt ign
                 = Inr (Some b, safe_mode @ '' (Fallback)'', Finite (real n))"
      by simp
  next
    assume "save_candidate_buffer L img safe_mode None lvl fmt = (None, None)"
    with eq show "smart_optimize L img file_path original_size lvl fmt ign
                 = Inr (None, safe_mode @ '' (Fallback)'', PosInf)"
      by simp
  qed
qed

lemma no_rgba_in_labels:
  assumes "label \<in> {''RGB'', ''P-256'', ''P-128'', ''RGB (Fallback)''}"
  shows "\<not> sublist ''RGBA'' label"
proof -
  from assms have "label = ''RGB'' \<or> label = ''P-256'' \<or> label = ''P-128''
      \<or> label = ''RGB (Fallback)''" by blast
  then show ?thesis
    by (elim disjE) (simp_all add: sublist_code)
qed

lemma str_int_256: "str_int 256 = ''256''"
  by (simp add: str_int_def str_nat.simps)

lemma str_int_128: "str_int 128 = ''128''"
  by (simp add: str_int_def str_nat.simps)

lemma candidates_ignore:
  "set (generate_candidates a True) \<subseteq> {(''RGB'', None), (''P'', Some 256), (''P'', Some 128)}"
  by (auto simp: generate_candidates_def)

lemma label_ignore:
  assumes "c \<in> set (generate_candidates a True)"
  shows "candidate_label (fst c) (snd c) \<in> {''RGB'', ''P-256'', ''P-128''}"
proof -
  from assms candidates_ignore [of a]
  have "c = (''RGB'', None) \<or> c = (''P'', Some 256) \<or> c = (''P'', Some 128)" by blast
  then show ?thesis
    by (elim disjE) (simp_all add: candidate_label_def str_int_256 str_int_128)
qed

text \<open>
  The labels under the ignore-transparency flag. A label returned by \<open>smart_optimize\<close>
  with the flag set is one of \<open>RGB\<close>, \<open>P-256\<close>, \<open>P-128\<close> and \<open>RGB (Fallback)\<close>, so it
  never contains \<open>RGBA\<close>: every generated candidate has mode RGB or P, and the fallback
  encodes in mode RGB.
\<close>

theorem smart_optimize_ignore_transparency:
  assumes "smart_optimize L img file_path original_size lvl fmt True = Inr (buf, label, sz)"
  shows "label \<in> {''RGB'', ''P-256'', ''P-128'', ''RGB (Fallback)''}
         \<and> \<not> sublist ''RGBA'' label
         \<and> (\<exists>a. analyze_image L img file_path = Inr a
                \<and> (\<forall>c\<in>set (generate_candidates a True). fst c = ''RGB'' \<or> fst c = ''P''))
         \<and> (label = ''RGB (Fallback)'' \<longrightarrow>
               buf = fst (save_candidate_buffer L img ''RGB'' None lvl fmt))"
proof -
  from assms obtain a where an: "analyze_image L img file_path = Inr a"
    by (auto simp: smart_optimize_def split: sum.splits)
  let ?cs = "generate_candidates a True"
  let ?st0 = "\<lparr>best_buffer = None, best_size = original_size, best_mode = ''Original''\<rparr>"
  let ?st = "foldl (race_step L img lvl fmt) ?st0 ?cs"
  have modes: "\<forall>c\<in>set ?cs. fst c = ''RGB'' \<or> fst c = ''P''"
    using candidates_ignore [of a] by auto
  have lab: "label \<in> {''RGB'', ''P-256'', ''P-128'', ''RGB (Fallback)''}
       \<and> (label = ''RGB (Fallback)'' \<longrightarrow>
               buf = fst (save_candidate_buffer L img ''RGB'' None lvl fmt))"
  proof (cases "best_buffer ?st = None")
    case True
    with assms show ?thesis
      by (simp add: smart_optimize_Inr [OF an])
  next
    case False
    with race_outcome [of L img lvl fmt original_size ?cs]
    obtain pre c post b n where fs: "first_smallest (encoding L img lvl fmt) ?cs pre c post b n"
      and st: "?st = \<lparr>best_buffer = Some b, best_size = Finite (real n),
                   best_mode = candidate_label (fst c) (snd c)\<rparr>"
      by auto
    from fs have "c \<in> set ?cs" by (simp add: first_smallest_def)
    then have "candidate_label (fst c) (snd c) \<in> {''RGB'', ''P-256'', ''P-128''}"
      by (rule label_ignore)
    moreover from assms st have "label = candidate_label (fst c) (snd c)"
      by (simp add: smart_optimize_Inr [OF an])
    ultimately show ?thesis by auto
  qed
  then have "\<not> sublist ''RGBA'' label" using no_rgba_in_labels by blast
  with lab an modes show ?thesis by blast
qed

section \<open>Properties of the variant encoder\<close>

text \<open>
  C8, as the code has it. For a compression level from 0 to 9 and a container whose
  upper-cased name is \<open>JPG\<close> or \<open>JPEG\<close>, \<open>save_candidate_buffer\<close> is exactly this: the
  image in the requested mode, converted to RGB when its mode is RGBA and left as it is
  in every other mode, is saved with the format JPEG, optimisation on, and the quality 85
  at level 0 and \<open>max 10 (100 - 10 * level)\<close> at the other levels, a value between 10 and
  90; any failure on the way gives \<open>(None, None)\<close>.
\<close>

theorem jpeg_quality_and_alpha_drop:
  assumes "0 \<le> lvl" and "lvl \<le> 9" and "upper fmt \<in> {''JPG'', ''JPEG''}"
  shows "save_kwargs fmt lvl =
           [(''format'', PStr ''JPEG''),
            (''quality'', PInt (if lvl = 0 then 85 else max 10 (100 - lvl * 10))),
            (''optimize'', PBool True)]
         \<and> save_candidate_buffer L img pix_mode colors lvl fmt =
             (case select_mode L img pix_mode colors of
                None \<Rightarrow> (None, None)
              | Some out \<Rightarrow>
                  (case (if img_mode L out = ''RGBA'' then img_convert L out ''RGB''
                         else Some out) of
                     None \<Rightarrow> (None, None)
                   | Some flat \<Rightarrow>
                       (case img_save L flat
                               [(''format'', PStr ''JPEG''),
                                (''quality'',
                                 PInt (if lvl = 0 then 85 else max 10 (100 - lvl * 10))),
                                (''optimize'', PBool True)] of
                          None \<Rightarrow> (None, None)
                        | Some (buffer, sz) \<Rightarrow> (Some buffer, Some sz))))
         \<and> 10 \<le> (if lvl = 0 then 85 else max 10 (100 - lvl * 10))
         \<and> (if lvl = 0 then 85 else max 10 (100 - lvl * 10)) \<le> 90
         \<and> (select_mode L img pix_mode colors = Some out \<and> img_mode L out = ''RGBA'' \<longrightarrow>
               jpeg_alpha_drop L fmt out = img_convert L out ''RGB''
               \<and> save_candidate_buffer L img pix_mode colors lvl fmt =
                   (case img_convert L out ''RGB'' of
                      None \<Rightarrow> (None, None)
                    | Some flat \<Rightarrow>
                        (case img_save L flat (save_kwargs fmt lvl) of
                           None \<Rightarrow> (None, None)
                         | Some (buffer, sz) \<Rightarrow> (Some buffer, Some sz))))"
proof -
  from assms(3) have "upper fmt \<noteq> ''PNG''" by auto
  with assms(3) have kw: "save_kwargs fmt lvl =
           [(''format'', PStr ''JPEG''),
            (''quality'', PInt (if lvl = 0 then 85 else max 10 (100 - lvl * 10))),
            (''optimize'', PBool True)]"
    by (simp add: save_kwargs_def)
  have drop: "jpeg_alpha_drop L fmt out' =
      (if img_mode L out' = ''RGBA'' then img_convert L out' ''RGB'' else Some out')" for out'
    using assms(3) by (simp add: jpeg_alpha_drop_def)
  have full: "save_candidate_buffer L img pix_mode colors lvl fmt =
             (case select_mode L img pix_mode colors of
                None \<Rightarrow> (None, None)
              | Some out \<Rightarrow>
                  (case (if img_mode L out = ''RGBA'' then img_convert L out ''RGB''
                         else Some out) of
                     None \<Rightarrow> (None, None)
                   | Some flat \<Rightarrow>
                       (case img_save L flat
                               [(''format'', PStr ''JPEG''),
                                (''quality'',
                                 PInt (if lvl = 0 then 85 else max 10 (100 - lvl * 10))),
                                (''optimize'', PBool True)] of
                          None \<Rightarrow> (None, None)
                        | Some (buffer, sz) \<Rightarrow> (Some buffer, Some sz))))"
    unfolding save_candidate_buffer_def kw drop ..
  have lo: "10 \<le> (if lvl = 0 then 85 else max 10 (100 - lvl * 10))" by simp
  have hi: "(if lvl = 0 then 85 else max 10 (100 - lvl * 10)) \<le> 90"
    using assms(1) by simp
  have rgba: "jpeg_alpha_drop L fmt out = img_convert L out ''RGB''
               \<and> save_candidate_buffer L img pix_mode colors lvl fmt =
                   (case img_convert L out ''RGB'' of
                      None \<Rightarrow> (None, None)
                    | Some flat \<Rightarrow>
                        (case img_save L flat (save_kwargs fmt lvl) of
                           None \<Rightarrow> (None, None)
                         | Some (buffer, sz) \<Rightarrow> (Some buffer, Some sz)))"
    if "select_mode L img pix_mode colors = Some out \<and> img_mode L out = ''RGBA''"
    using that by (simp add: save_candidate_buffer_def drop)
  have rgba': "select_mode L img pix_mode colors = Some out \<and> img_mode L out = ''RGBA'' \<longrightarrow>
               jpeg_alpha_drop L fmt out = img_convert L out ''RGB''
               \<and> save_candidate_buffer L img pix_mode colors lvl fmt =
                   (case img_convert L out ''RGB'' of
                      None \<Rightarrow> (None, None)
                    | Some flat \<Rightarrow>
                        (case img_save L flat (save_kwargs fmt lvl) of
                           None \<Rightarrow> (None, None)
                         | Some (buffer, sz) \<Rightarrow> (Some buffer, Some sz)))"
    using rgba by (rule impI)
  from kw full lo hi rgba' show ?thesis by (intro conjI)
qed

section \<open>Concrete runs on the stand-in library\<close>

text \<open>
  An opaque two-pixel RGB image \<open>stone.png\<close>. As PNG its candidates encode to 5, 3 and 3
  bytes; with the unknown container \<open>XYZ\<close> every save call fails.
\<close>

lemma upper_examples:
  "upper ''PNG'' = ''PNG''" "upper ''XYZ'' = ''XYZ''" "upper ''jpg'' = ''JPG''"
  "upper ''JPEG'' = ''JPEG''"
  by (simp_all add: upper_def upper_char_def)

lemma not_ui_stone: "\<not> is_ui_texture ''stone.png''"
  by (simp add: is_ui_texture_def lower_def lower_char_def replace_char_def ui_keywords_def)

lemma analyze_opaque_example:
  "analyze_image (stub_imaging example_sizes)
     \<lparr>s_mode = ''RGB'', s_alpha = [255, 255], s_palette = 0\<rparr> ''stone.png''
   = Inr \<lparr>mode = ''RGB'', alpha_type = ''none'', is_ui = False, has_transparency = False,
          suggested_algorithm = ''LANCZOS''\<rparr>"
  by (simp add: analyze_image_def alpha_channel_def classify_alpha_def getextrema_def
        suggest_algorithm_def stub_imaging_simps stub_convert_def not_ui_stone)

lemma encoding_opaque_example:
  "encoding (stub_imaging example_sizes)
     \<lparr>s_mode = ''RGB'', s_alpha = [255, 255], s_palette = 0\<rparr> 9 ''PNG'' (''RGB'', None)
   = (Some (replicate 5 0), Some 5)"
  "encoding (stub_imaging example_sizes)
     \<lparr>s_mode = ''RGB'', s_alpha = [255, 255], s_palette = 0\<rparr> 9 ''PNG'' (''P'', Some 256)
   = (Some (replicate 3 0), Some 3)"
  "encoding (stub_imaging example_sizes)
     \<lparr>s_mode = ''RGB'', s_alpha = [255, 255], s_palette = 0\<rparr> 9 ''PNG'' (''P'', Some 128)
   = (Some (replicate 3 0), Some 3)"
  by (simp_all add: encoding_def save_candidate_buffer_def select_mode_def jpeg_alpha_drop_def
        save_kwargs_def stub_imaging_simps stub_convert_def stub_save_def upper_examples
        example_sizes_def)

lemma encoding_unknown_container:
  "encoding (stub_imaging example_sizes)
     \<lparr>s_mode = ''RGB'', s_alpha = [255, 255], s_palette = 0\<rparr> 9 ''XYZ'' (''RGB'', None)
   = (None, None)"
  "encoding (stub_imaging example_sizes)
     \<lparr>s_mode = ''RGB'', s_alpha = [255, 255], s_palette = 0\<rparr> 9 ''XYZ'' (''P'', Some 256)
   = (None, None)"
  "encoding (stub_imaging example_sizes)
     \<lparr>s_mode = ''RGB'', s_alpha = [255, 255], s_palette = 0\<rparr> 9 ''XYZ'' (''P'', Some 128)
   = (None, None)"
  by (simp_all add: encoding_def save_candidate_buffer_def select_mode_def jpeg_alpha_drop_def
        save_kwargs_def stub_imaging_simps stub_convert_def stub_save_def upper_examples
        example_sizes_def)

lemma candidates_opaque_example:
  "generate_candidates \<lparr>mode = ''RGB'', alpha_type = ''none'', is_ui = False,
       has_transparency = False, suggested_algorithm = ''LANCZOS''\<rparr> False
   = [(''RGB'', None), (''P'', Some 256), (''P'', Some 128)]"
  by (simp add: generate_candidates_def)

lemma smart_optimize_opaque_example:
  "smart_optimize (stub_imaging example_sizes)
     \<lparr>s_mode = ''RGB'', s_alpha = [255, 255], s_palette = 0\<rparr> ''stone.png'' (Finite 10) 9
     ''PNG'' False
   = Inr (Some (replicate 3 0), ''P-256'', Finite 3)"
  by (simp add: smart_optimize_Inr [OF analyze_opaque_example] candidates_opaque_example
        race_step_encoding encoding_opaque_example lt_float_def candidate_label_def
        str_int_256 str_int_128)

lemma smart_optimize_unknown_container:
  "smart_optimize (stub_imaging example_sizes)
     \<lparr>s_mode = ''RGB'', s_alpha = [255, 255], s_palette = 0\<rparr> ''stone.png'' (Finite 10) 9
     ''XYZ'' False
   = Inr (None, ''RGB (Fallback)'', PosInf)"
proof -
  have fb: "save_candidate_buffer (stub_imaging example_sizes)
     \<lparr>s_mode = ''RGB'', s_alpha = [255, 255], s_palette = 0\<rparr> ''RGB'' None 9 ''XYZ''
     = (None, None)"
    using encoding_unknown_container(1) by (simp add: encoding_def)
  show ?thesis
    by (simp add: smart_optimize_Inr [OF analyze_opaque_example] candidates_opaque_example
          race_step_encoding encoding_unknown_container fb)
qed

text \<open>
  The race on \<open>stone.png\<close> against a baseline of 10 bytes: the palette of 256 colours
  wins with 3 bytes, ahead of the palette of 128 colours that reaches the same size later.
\<close>

theorem smart_optimize_global_minimum_witness:
  "analyze_image (stub_imaging example_sizes)
     \<lparr>s_mode = ''RGB'', s_alpha = [255, 255], s_palette = 0\<rparr> ''stone.png''
     = Inr \<lparr>mode = ''RGB'', alpha_type = ''none'', is_ui = False, has_transparency = False,
            suggested_algorithm = ''LANCZOS''\<rparr>
   \<and> (\<exists>c\<in>set (generate_candidates \<lparr>mode = ''RGB'', alpha_type = ''none'', is_ui = False,
                has_transparency = False, suggested_algorithm = ''LANCZOS''\<rparr> False).
         \<exists>b n. encoding (stub_imaging example_sizes)
                 \<lparr>s_mode = ''RGB'', s_alpha = [255, 255], s_palette = 0\<rparr> 9 ''PNG'' c
                 = (Some b, Some n) \<and> lt_float n (Finite 10))
   \<and> (\<exists>pre c post b n.
         first_smallest
           (encoding (stub_imaging example_sizes)
              \<lparr>s_mode = ''RGB'', s_alpha = [255, 255], s_palette = 0\<rparr> 9 ''PNG'')
           (generate_candidates \<lparr>mode = ''RGB'', alpha_type = ''none'', is_ui = False,
                has_transparency = False, suggested_algorithm = ''LANCZOS''\<rparr> False)
           pre c post b n
         \<and> (\<forall>c'\<in>set (generate_candidates \<lparr>mode = ''RGB'', alpha_type = ''none'',
                is_ui = False, has_transparency = False,
                suggested_algorithm = ''LANCZOS''\<rparr> False).
               \<forall>b' n'. encoding (stub_imaging example_sizes)
                 \<lparr>s_mode = ''RGB'', s_alpha = [255, 255], s_palette = 0\<rparr> 9 ''PNG'' c'
                 = (Some b', Some n') \<longrightarrow> n \<le> n')
         \<and> smart_optimize (stub_imaging example_sizes)
              \<lparr>s_mode = ''RGB'', s_alpha = [255, 255], s_palette = 0\<rparr> ''stone.png''
              (Finite 10) 9 ''PNG'' False
             = Inr (Some b, candidate_label (fst c) (snd c), Finite (real n)))
   \<and> smart_optimize (stub_imaging example_sizes)
         \<lparr>s_mode = ''RGB'', s_alpha = [255, 255], s_palette = 0\<rparr> ''stone.png'' (Finite 10) 9
         ''PNG'' False
       = Inr (Some (replicate 3 0), ''P-256'', Finite 3)"
proof -
  let ?A = "\<lparr>mode = ''RGB'', alpha_type = ''none'', is_ui = False, has_transparency = False,
            suggested_algorithm = ''LANCZOS''\<rparr>"
  have h2: "\<exists>c\<in>set (generate_candidates ?A False).
         \<exists>b n. encoding (stub_imaging example_sizes)
                 \<lparr>s_mode = ''RGB'', s_alpha = [255, 255], s_palette = 0\<rparr> 9 ''PNG'' c
                 = (Some b, Some n) \<and> lt_float n (Finite 10)"
    by (simp add: candidates_opaque_example encoding_opaque_example lt_float_def)
  note smart_optimize_global_minimum [OF analyze_opaque_example h2]
  with analyze_opaque_example h2 smart_optimize_opaque_example show ?thesis
    by (intro conjI)
qed

text \<open>
  Against a baseline of 2 bytes no candidate wins, and the fallback encodes the image in
  mode RGB.
\<close>

theorem smart_optimize_fallback_witness:
  "analyze_image (stub_imaging example_sizes)
     \<lparr>s_mode = ''RGB'', s_alpha = [255, 255], s_palette = 0\<rparr> ''stone.png''
     = Inr \<lparr>mode = ''RGB'', alpha_type = ''none'', is_ui = False, has_transparency = False,
            suggested_algorithm = ''LANCZOS''\<rparr>
   \<and> generate_candidates \<lparr>mode = ''RGB'', alpha_type = ''none'', is_ui = False,
         has_transparency = False, suggested_algorithm = ''LANCZOS''\<rparr> False
       = [(''RGB'', None), (''P'', Some 256), (''P'', Some 128)]
   \<and> encoding (stub_imaging example_sizes)
         \<lparr>s_mode = ''RGB'', s_alpha = [255, 255], s_palette = 0\<rparr> 9 ''PNG'' (''RGB'', None)
       = (Some (replicate 5 0), Some 5)
   \<and> encoding (stub_imaging example_sizes)
         \<lparr>s_mode = ''RGB'', s_alpha = [255, 255], s_palette = 0\<rparr> 9 ''PNG'' (''P'', Some 256)
       = (Some (replicate 3 0), Some 3)
   \<and> encoding (stub_imaging example_sizes)
         \<lparr>s_mode = ''RGB'', s_alpha = [255, 255], s_palette = 0\<rparr> 9 ''PNG'' (''P'', Some 128)
       = (Some (replicate 3 0), Some 3)
   \<and> \<not> lt_float 5 (Finite 2) \<and> \<not> lt_float 3 (Finite 2)
   \<and> smart_optimize (stub_imaging example_sizes)
         \<lparr>s_mode = ''RGB'', s_alpha = [255, 255], s_palette = 0\<rparr> ''stone.png'' (Finite 2) 9
         ''PNG'' False
       = Inr (Some (replicate 5 0), ''RGB (Fallback)'', Finite 5)"
proof -
  let ?S = "stub_imaging example_sizes"
  let ?I = "\<lparr>s_mode = ''RGB'', s_alpha = [255, 255], s_palette = 0\<rparr>"
  let ?A = "\<lparr>mode = ''RGB'', alpha_type = ''none'', is_ui = False, has_transparency = False,
            suggested_algorithm = ''LANCZOS''\<rparr>"
  have h2: "\<forall>c\<in>set (generate_candidates ?A False). \<forall>b n.
           encoding ?S ?I 9 ''PNG'' c = (Some b, Some n) \<longrightarrow> \<not> lt_float n (Finite 2)"
    by (simp add: candidates_opaque_example encoding_opaque_example lt_float_def)
  have h3: "''RGB'' = (if False \<or> alpha_type ?A = ''none'' then ''RGB'' else ''RGBA'')"
    by simp
  have fb: "save_candidate_buffer ?S ?I ''RGB'' None 9 ''PNG'' = (Some (replicate 5 0), Some 5)"
    using encoding_opaque_example(1) by (simp add: encoding_def)
  have lt: "\<not> lt_float 5 (Finite 2)" "\<not> lt_float 3 (Finite 2)"
    by (simp_all add: lt_float_def)
  have "smart_optimize ?S ?I ''stone.png'' (Finite 2) 9 ''PNG'' False
       = Inr (Some (replicate 5 0), ''RGB (Fallback)'', Finite 5)"
    using smart_optimize_fallback [OF analyze_opaque_example h2 h3] by (simp add: fb)
  with analyze_opaque_example candidates_opaque_example encoding_opaque_example lt
  show ?thesis by (intro conjI)
qed

text \<open>
  C3 as the specification states it, that the result is never a failure when no
  candidate beats the baseline, does not hold: with the container \<open>XYZ\<close> every candidate
  encoding of \<open>stone.png\<close> fails, the fallback encoding fails like the first candidate
  did, and \<open>smart_optimize\<close> returns no buffer, the label \<open>RGB (Fallback)\<close> and the size
  \<open>+inf\<close>.
\<close>

theorem smart_optimize_fallback_counterexample:
  "analyze_image (stub_imaging example_sizes)
     \<lparr>s_mode = ''RGB'', s_alpha = [255, 255], s_palette = 0\<rparr> ''stone.png''
     = Inr \<lparr>mode = ''RGB'', alpha_type = ''none'', is_ui = False, has_transparency = False,
            suggested_algorithm = ''LANCZOS''\<rparr>
   \<and> generate_candidates \<lparr>mode = ''RGB'', alpha_type = ''none'', is_ui = False,
         has_transparency = False, suggested_algorithm = ''LANCZOS''\<rparr> False
       = [(''RGB'', None), (''P'', Some 256), (''P'', Some 128)]
   \<and> encoding (stub_imaging example_sizes)
         \<lparr>s_mode = ''RGB'', s_alpha = [255, 255], s_palette = 0\<rparr> 9 ''XYZ'' (''RGB'', None)
       = (None, None)
   \<and> encoding (stub_imaging example_sizes)
         \<lparr>s_mode = ''RGB'', s_alpha = [255, 255], s_palette = 0\<rparr> 9 ''XYZ'' (''P'', Some 256)
       = (None, None)
   \<and> encoding (stub_imaging example_sizes)
         \<lparr>s_mode = ''RGB'', s_alpha = [255, 255], s_palette = 0\<rparr> 9 ''XYZ'' (''P'', Some 128)
       = (None, None)
   \<and> smart_optimize (stub_imaging example_sizes)
         \<lparr>s_mode = ''RGB'', s_alpha = [255, 255], s_palette = 0\<rparr> ''stone.png'' (Finite 10) 9
         ''XYZ'' False
       = Inr (None, ''RGB (Fallback)'', PosInf)"
  using analyze_opaque_example candidates_opaque_example encoding_unknown_container
    smart_optimize_unknown_container
  by (intro conjI)

text \<open>
  A two-pixel RGBA image \<open>glass.png\<close> with the alpha values 0 and 128, optimised with
  the ignore-transparency flag set and no baseline to beat.
\<close>

lemma not_ui_glass: "\<not> is_ui_texture ''glass.png''"
  by (simp add: is_ui_texture_def lower_def lower_char_def replace_char_def ui_keywords_def)

lemma analyze_glass_example:
  "analyze_image (stub_imaging example_sizes)
     \<lparr>s_mode = ''RGBA'', s_alpha = [0, 128], s_palette = 0\<rparr> ''glass.png''
   = Inr \<lparr>mode = ''RGBA'', alpha_type = ''partial'', is_ui = False, has_transparency = True,
          suggested_algorithm = ''LANCZOS''\<rparr>"
  by (simp add: analyze_image_def alpha_channel_def classify_alpha_def getextrema_def
        getcolors_def suggest_algorithm_def stub_imaging_simps stub_convert_def not_ui_glass)

lemma encoding_glass_example:
  "encoding (stub_imaging example_sizes)
     \<lparr>s_mode = ''RGBA'', s_alpha = [0, 128], s_palette = 0\<rparr> 9 ''PNG'' (''RGB'', None)
   = (Some (replicate 5 0), Some 5)"
  "encoding (stub_imaging example_sizes)
     \<lparr>s_mode = ''RGBA'', s_alpha = [0, 128], s_palette = 0\<rparr> 9 ''PNG'' (''P'', Some 256)
   = (Some (replicate 3 0), Some 3)"
  "encoding (stub_imaging example_sizes)
     \<lparr>s_mode = ''RGBA'', s_alpha = [0, 128], s_palette = 0\<rparr> 9 ''PNG'' (''P'', Some 128)
   = (Some (replicate 3 0), Some 3)"
  by (simp_all add: encoding_def save_candidate_buffer_def select_mode_def jpeg_alpha_drop_def
        save_kwargs_def stub_imaging_simps stub_convert_def stub_save_def upper_examples
        example_sizes_def)

lemma smart_optimize_glass_example:
  "smart_optimize (stub_imaging example_sizes)
     \<lparr>s_mode = ''RGBA'', s_alpha = [0, 128], s_palette = 0\<rparr> ''glass.png'' PosInf 9
     ''PNG'' True
   = Inr (Some (replicate 3 0), ''P-256'', Finite 3)"
  by (simp add: smart_optimize_Inr [OF analyze_glass_example] generate_candidates_def
        race_step_encoding encoding_glass_example lt_float_def candidate_label_def
        str_int_256 str_int_128)

theorem smart_optimize_ignore_transparency_witness:
  "smart_optimize (stub_imaging example_sizes)
     \<lparr>s_mode = ''RGBA'', s_alpha = [0, 128], s_palette = 0\<rparr> ''glass.png'' PosInf 9
     ''PNG'' True
     = Inr (Some (replicate 3 0), ''P-256'', Finite 3)
   \<and> ''P-256'' \<in> {''RGB'', ''P-256'', ''P-128'', ''RGB (Fallback)''}
   \<and> \<not> sublist ''RGBA'' ''P-256''"
proof -
  note w = smart_optimize_ignore_transparency [OF smart_optimize_glass_example]
  from w have a: "''P-256'' \<in> {''RGB'', ''P-256'', ''P-128'', ''RGB (Fallback)''}"
    by (rule conjunct1)
  from w have b: "\<not> sublist ''RGBA'' ''P-256''"
    by (elim conjE)
  from smart_optimize_glass_example a b show ?thesis by (intro conjI)
qed

text \<open>
  The same image saved in mode RGBA as \<open>jpg\<close> at level 9: the image handed to the
  encoder is the RGB conversion, the quality is 10, and the stand-in JPEG encoder, which
  refuses an RGBA image, accepts it.
\<close>

theorem jpeg_quality_and_alpha_drop_witness:
  "(0::int) \<le> 9 \<and> (9::int) \<le> 9 \<and> upper ''jpg'' \<in> {''JPG'', ''JPEG''}
   \<and> save_kwargs ''jpg'' 9 =
        [(''format'', PStr ''JPEG''), (''quality'', PInt 10), (''optimize'', PBool True)]
   \<and> select_mode (stub_imaging example_sizes)
        \<lparr>s_mode = ''RGBA'', s_alpha = [0, 128], s_palette = 0\<rparr> ''RGBA'' None
       = Some \<lparr>s_mode = ''RGBA'', s_alpha = [0, 128], s_palette = 0\<rparr>
   \<and> save_candidate_buffer (stub_imaging example_sizes)
        \<lparr>s_mode = ''RGBA'', s_alpha = [0, 128], s_palette = 0\<rparr> ''RGBA'' None 9 ''jpg''
       = (case img_save (stub_imaging example_sizes)
                 \<lparr>s_mode = ''RGB'', s_alpha = [255, 255], s_palette = 0\<rparr>
                 [(''format'', PStr ''JPEG''), (''quality'', PInt 10),
                  (''optimize'', PBool True)] of
            None \<Rightarrow> (None, None)
          | Some (buffer, sz) \<Rightarrow> (Some buffer, Some sz))
   \<and> save_candidate_buffer (stub_imaging example_sizes)
        \<lparr>s_mode = ''RGBA'', s_alpha = [0, 128], s_palette = 0\<rparr> ''RGBA'' None 9 ''jpg''
       = (Some (replicate 5 0), Some 5)"
proof -
  let ?S = "stub_imaging example_sizes"
  let ?I = "\<lparr>s_mode = ''RGBA'', s_alpha = [0, 128], s_palette = 0\<rparr>"
  have h1: "(0::int) \<le> 9" and h2: "(9::int) \<le> 9" by simp_all
  have h3: "upper ''jpg'' \<in> {''JPG'', ''JPEG''}" by (simp add: upper_examples)
  have h4: "select_mode ?S ?I ''RGBA'' None = Some ?I"
    by (simp add: select_mode_def stub_imaging_simps stub_convert_def)
  note w = jpeg_quality_and_alpha_drop [OF h1 h2 h3, of ?S ?I "''RGBA''" None ?I]
  from w have "save_kwargs ''jpg'' 9 =
           [(''format'', PStr ''JPEG''),
            (''quality'', PInt (if (9::int) = 0 then 85 else max 10 (100 - 9 * 10))),
            (''optimize'', PBool True)]" by (rule conjunct1)
  then have c1: "save_kwargs ''jpg'' 9 =
        [(''format'', PStr ''JPEG''), (''quality'', PInt 10), (''optimize'', PBool True)]"
    by simp
  from w have "save_candidate_buffer ?S ?I ''RGBA'' None 9 ''jpg'' =
             (case select_mode ?S ?I ''RGBA'' None of
                None \<Rightarrow> (None, None)
              | Some out \<Rightarrow>
                  (case (if img_mode ?S out = ''RGBA'' then img_convert ?S out ''RGB''
                         else Some out) of
                     None \<Rightarrow> (None, None)
                   | Some flat \<Rightarrow>
                       (case img_save ?S flat
                               [(''format'', PStr ''JPEG''),
                                (''quality'',
                                 PInt (if (9::int) = 0 then 85 else max 10 (100 - 9 * 10))),
                                (''optimize'', PBool True)] of
                          None \<Rightarrow> (None, None)
                        | Some (buffer, sz) \<Rightarrow> (Some buffer, Some sz))))"
    by (elim conjE)
  then have c2: "save_candidate_buffer ?S ?I ''RGBA'' None 9 ''jpg''
       = (case img_save ?S \<lparr>s_mode = ''RGB'', s_alpha = [255, 255], s_palette = 0\<rparr>
                 [(''format'', PStr ''JPEG''), (''quality'', PInt 10),
                  (''optimize'', PBool True)] of
            None \<Rightarrow> (None, None)
          | Some (buffer, sz) \<Rightarrow> (Some buffer, Some sz))"
    by (simp add: h4 stub_imaging_simps stub_convert_def)
  then have c3: "save_candidate_buffer ?S ?I ''RGBA'' None 9 ''jpg''
       = (Some (replicate 5 0), Some 5)"
    by (simp add: stub_imaging_simps stub_save_def upper_examples example_sizes_def)
  from h1 h2 h3 c1 h4 c2 c3 show ?thesis by (intro conjI)
qed

section \<open>The palette candidates under the ignore-transparency flag\<close>

text \<open>
  \<open>save_candidate_buffer\<close> does not take the flag. For a palette candidate the quantizer
  is given the image itself when its mode is RGBA, and its RGBA conversion otherwise,
  alpha channel included, whatever the flag is.
\<close>

lemma select_mode_palette:
  "select_mode L img ''P'' colors =
     (case (if img_mode L img \<noteq> ''RGBA'' then img_convert L img ''RGBA'' else Some img) of
        None \<Rightarrow> None
      | Some rgba \<Rightarrow> img_quantize L rgba (case colors of Some n \<Rightarrow> n | None \<Rightarrow> 256) 2 0)"
  by (simp add: select_mode_def Let_def split: option.split)

text \<open>
  A two-pixel image \<open>smoke.png\<close> of mode LA (grey with alpha) with the alpha values 0 and
  128. The caller strips the alpha channel under the flag only from images of mode RGBA, so
  this image reaches \<open>smart_optimize\<close> with the flag set as it is.
\<close>

lemma not_ui_smoke: "\<not> is_ui_texture ''smoke.png''"
  by (simp add: is_ui_texture_def lower_def lower_char_def replace_char_def ui_keywords_def)

lemma analyze_smoke_example:
  "analyze_image (stub_imaging example_sizes)
     \<lparr>s_mode = ''LA'', s_alpha = [0, 128], s_palette = 0\<rparr> ''smoke.png''
   = Inr \<lparr>mode = ''LA'', alpha_type = ''partial'', is_ui = False, has_transparency = True,
          suggested_algorithm = ''LANCZOS''\<rparr>"
  by (simp add: analyze_image_def alpha_channel_def classify_alpha_def getextrema_def
        getcolors_def suggest_algorithm_def stub_imaging_simps stub_convert_def not_ui_smoke)

lemma encoding_smoke_example:
  "encoding (stub_imaging example_sizes)
     \<lparr>s_mode = ''LA'', s_alpha = [0, 128], s_palette = 0\<rparr> 9 ''PNG'' (''RGB'', None)
   = (Some (replicate 5 0), Some 5)"
  "encoding (stub_imaging example_sizes)
     \<lparr>s_mode = ''LA'', s_alpha = [0, 128], s_palette = 0\<rparr> 9 ''PNG'' (''P'', Some 256)
   = (Some (replicate 3 0), Some 3)"
  "encoding (stub_imaging example_sizes)
     \<lparr>s_mode = ''LA'', s_alpha = [0, 128], s_palette = 0\<rparr> 9 ''PNG'' (''P'', Some 128)
   = (Some (replicate 3 0), Some 3)"
  by (simp_all add: encoding_def save_candidate_buffer_def select_mode_def jpeg_alpha_drop_def
        save_kwargs_def stub_imaging_simps stub_convert_def stub_save_def upper_examples
        example_sizes_def)

lemma smart_optimize_smoke_example:
  "smart_optimize (stub_imaging example_sizes)
     \<lparr>s_mode = ''LA'', s_alpha = [0, 128], s_palette = 0\<rparr> ''smoke.png'' PosInf 9
     ''PNG'' True
   = Inr (Some (replicate 3 0), ''P-256'', Finite 3)"
  by (simp add: smart_optimize_Inr [OF analyze_smoke_example] generate_candidates_def
        race_step_encoding encoding_smoke_example lt_float_def candidate_label_def
        str_int_256 str_int_128)

text \<open>
  C10. With the ignore-transparency flag set the returned label never names RGBA (the
  theorem on the labels above), but an encoding that carries alpha is selected all the
  same. For \<open>smoke.png\<close> the race picks \<open>P-256\<close>; the buffer it returns is the encoding of
  the palette image that the quantizer made from the RGBA conversion, and the alpha
  channel of that palette image still holds 0 and 128.
\<close>

theorem smart_optimize_ignore_transparency_keeps_alpha:
  "alpha_channel (stub_imaging example_sizes)
     \<lparr>s_mode = ''LA'', s_alpha = [0, 128], s_palette = 0\<rparr> = Inr [0, 128]
   \<and> smart_optimize (stub_imaging example_sizes)
     \<lparr>s_mode = ''LA'', s_alpha = [0, 128], s_palette = 0\<rparr> ''smoke.png'' PosInf 9
     ''PNG'' True
     = Inr (Some (replicate 3 0), ''P-256'', Finite 3)
   \<and> select_mode (stub_imaging example_sizes)
        \<lparr>s_mode = ''LA'', s_alpha = [0, 128], s_palette = 0\<rparr> ''P'' (Some 256)
       = Some \<lparr>s_mode = ''P'', s_alpha = [0, 128], s_palette = 256\<rparr>
   \<and> img_save (stub_imaging example_sizes)
        \<lparr>s_mode = ''P'', s_alpha = [0, 128], s_palette = 256\<rparr> (save_kwargs ''PNG'' 9)
       = Some (replicate 3 0, 3)
   \<and> save_candidate_buffer (stub_imaging example_sizes)
        \<lparr>s_mode = ''LA'', s_alpha = [0, 128], s_palette = 0\<rparr> ''P'' (Some 256) 9 ''PNG''
       = (Some (replicate 3 0), Some 3)
   \<and> alpha_channel (stub_imaging example_sizes)
        \<lparr>s_mode = ''P'', s_alpha = [0, 128], s_palette = 256\<rparr> = Inr [0, 128]"
proof -
  let ?S = "stub_imaging example_sizes"
  let ?I = "\<lparr>s_mode = ''LA'', s_alpha = [0, 128], s_palette = 0\<rparr>"
  let ?P = "\<lparr>s_mode = ''P'', s_alpha = [0, 128], s_palette = 256\<rparr>"
  have z: "alpha_channel ?S ?I = Inr [0, 128]"
    by (simp add: alpha_channel_def stub_imaging_simps stub_convert_def)
  have a: "select_mode ?S ?I ''P'' (Some 256) = Some ?P"
    by (simp add: select_mode_palette stub_imaging_simps stub_convert_def)
  have b: "img_save ?S ?P (save_kwargs ''PNG'' 9) = Some (replicate 3 0, 3)"
    by (simp add: save_kwargs_def stub_imaging_simps stub_save_def upper_examples
          example_sizes_def)
  have c: "save_candidate_buffer ?S ?I ''P'' (Some 256) 9 ''PNG''
       = (Some (replicate 3 0), Some 3)"
    using encoding_smoke_example(2) by (simp add: encoding_def)
  have d: "alpha_channel ?S ?P = Inr [0, 128]"
    by (simp add: alpha_channel_def stub_imaging_simps stub_convert_def)
  from z smart_optimize_smoke_example a b c d show ?thesis by (intro conjI)
qed

section \<open>A palette candidate in a JPEG container\<close>

text \<open>
  C8 as the specification states it, that an output whose pixel format carries alpha is
  flattened before a JPEG encoding, does not hold for a palette candidate: the palette
  image quantized from a cutout with the alpha values 0 and 255 keeps them, its mode is
  not RGBA, so it is handed to the encoder as it is. The stand-in JPEG encoder refuses it,
  and the candidate is lost.
\<close>

theorem jpeg_alpha_drop_palette_counterexample:
  "upper ''JPEG'' = ''JPEG''
   \<and> select_mode (stub_imaging example_sizes)
        \<lparr>s_mode = ''RGBA'', s_alpha = [0, 255], s_palette = 0\<rparr> ''P'' (Some 256)
       = Some \<lparr>s_mode = ''P'', s_alpha = [0, 255], s_palette = 256\<rparr>
   \<and> alpha_channel (stub_imaging example_sizes)
        \<lparr>s_mode = ''P'', s_alpha = [0, 255], s_palette = 256\<rparr> = Inr [0, 255]
   \<and> jpeg_alpha_drop (stub_imaging example_sizes) ''JPEG''
        \<lparr>s_mode = ''P'', s_alpha = [0, 255], s_palette = 256\<rparr>
       = Some \<lparr>s_mode = ''P'', s_alpha = [0, 255], s_palette = 256\<rparr>
   \<and> img_save (stub_imaging example_sizes)
        \<lparr>s_mode = ''P'', s_alpha = [0, 255], s_palette = 256\<rparr> (save_kwargs ''JPEG'' 9)
       = None
   \<and> save_candidate_buffer (stub_imaging example_sizes)
        \<lparr>s_mode = ''RGBA'', s_alpha = [0, 255], s_palette = 0\<rparr> ''P'' (Some 256) 9 ''JPEG''
       = (None, None)"
proof -
  let ?S = "stub_imaging example_sizes"
  let ?I = "\<lparr>s_mode = ''RGBA'', s_alpha = [0, 255], s_palette = 0\<rparr>"
  let ?P = "\<lparr>s_mode = ''P'', s_alpha = [0, 255], s_palette = 256\<rparr>"
  have u: "upper ''JPEG'' = ''JPEG''" by (rule upper_examples)
  have a: "select_mode ?S ?I ''P'' (Some 256) = Some ?P"
    by (simp add: select_mode_palette stub_imaging_simps)
  have b: "alpha_channel ?S ?P = Inr [0, 255]"
    by (simp add: alpha_channel_def stub_imaging_simps stub_convert_def)
  have c: "jpeg_alpha_drop ?S ''JPEG'' ?P = Some ?P"
    by (simp add: jpeg_alpha_drop_def stub_imaging_simps)
  have d: "img_save ?S ?P (save_kwargs ''JPEG'' 9) = None"
    by (simp add: save_kwargs_def stub_imaging_simps stub_save_def upper_examples)
  have e: "save_candidate_buffer ?S ?I ''P'' (Some 256) 9 ''JPEG'' = (None, None)"
    by (simp add: save_candidate_buffer_def a c d)
  from u a b c d e show ?thesis by (intro conjI)
qed

end
